theory Spec2Isabelle
  imports Main "HOL-Library.Sublist"
begin

section \<open>kdebug.py: the debug-container lifecycle, embedded in HOL\<close>

text \<open>
  The program is a sequential Python script that drives \<^verbatim>\<open>kubectl\<close> through
  \<^verbatim>\<open>subprocess.run\<close>. The embedding threads an explicit state through every
  function: the clock, the number of subprocesses started so far, the list of
  subprocesses started, the lines printed and the global \<^verbatim>\<open>DEBUG_MODE\<close> flag.
  Everything the cluster answers is a parameter, the \<open>world\<close>: the outcome and the
  duration of the k-th subprocess, the result of \<^verbatim>\<open>json.loads\<close>, of
  \<^verbatim>\<open>os.makedirs\<close> and of \<^verbatim>\<open>datetime.now().strftime\<close>.
  A Python exception is a value: every function returns \<open>(exn + 'a) \<times> st\<close>.
  Text is a list of 8-bit characters; the non-ASCII symbols of the messages are
  written as their UTF-8 bytes; \<open>strip\<close> and \<open>lower\<close> act on the ASCII range.
  The clock counts whole seconds.
\<close>

subsection \<open>Python values and library functions\<close>

datatype exn =
    KeyboardInterrupt
  | Exception string
  | BaseException string

datatype stream = Stdout | Stderr

datatype proc = Shell string | Argv "string list"

datatype completed = Completed int string string

datatype outcome = Returned completed | Raised exn

record st =
  now :: int
  issued :: nat
  trace :: "proc list"
  out :: "(stream \<times> string) list"
  DEBUG_MODE :: bool

definition py_print :: "stream \<Rightarrow> string \<Rightarrow> st \<Rightarrow> st" where
  "py_print f text s = s\<lparr>out := out s @ [(f, text)]\<rparr>"

definition sleep :: "int \<Rightarrow> st \<Rightarrow> st" where
  "sleep secs s = s\<lparr>now := now s + secs\<rparr>"

definition truthy :: "string option \<Rightarrow> bool" where
  "truthy x = (case x of None \<Rightarrow> False | Some t \<Rightarrow> t \<noteq> [])"

definition get_default :: "'a option \<Rightarrow> 'a \<Rightarrow> 'a" where
  "get_default x d = (case x of None \<Rightarrow> d | Some v \<Rightarrow> v)"

definition isspace :: "char \<Rightarrow> bool" where
  "isspace c = (of_char c \<in> set [9, 10, 11, 12, 13, 28, 29, 30, 31, 32 :: nat])"

definition strip :: "string \<Rightarrow> string" where
  "strip t = rev (dropWhile isspace (rev (dropWhile isspace t)))"

definition lower_char :: "char \<Rightarrow> char" where
  "lower_char c =
     get_default (map_of (zip ''ABCDEFGHIJKLMNOPQRSTUVWXYZ'' ''abcdefghijklmnopqrstuvwxyz'') c) c"

definition lower :: "string \<Rightarrow> string" where
  "lower t = map lower_char t"

fun join :: "string \<Rightarrow> string list \<Rightarrow> string" where
  "join sep [] = []"
| "join sep [x] = x"
| "join sep (x # y # ys) = x @ sep @ join sep (y # ys)"

fun str_nat :: "nat \<Rightarrow> string" where
  "str_nat n =
     (if n < 10 then [''0123456789'' ! n]
      else str_nat (n div 10) @ [''0123456789'' ! (n mod 10)])"

declare str_nat.simps [simp del]

definition str_int :: "int \<Rightarrow> string" where
  "str_int i = (if i < 0 then CHR ''-'' # str_nat (nat (- i)) else str_nat (nat i))"

definition dirname :: "string \<Rightarrow> string" where
  "dirname p =
     (let head = rev (dropWhile (\<lambda>c. c \<noteq> CHR ''/'') (rev p))
      in if head \<noteq> [] \<and> \<not> list_all (\<lambda>c. c = CHR ''/'') head
         then rev (dropWhile (\<lambda>c. c = CHR ''/'') (rev head))
         else head)"

subsection \<open>Colours and symbols\<close>

definition ESC :: string where "ESC = [CHR 0x1B]"
definition RESET :: string where "RESET = ESC @ ''[0m''"
definition BOLD :: string where "BOLD = ESC @ ''[1m''"
definition RED :: string where "RED = ESC @ ''[31m''"
definition GREEN :: string where "GREEN = ESC @ ''[32m''"
definition YELLOW :: string where "YELLOW = ESC @ ''[33m''"
definition BLUE :: string where "BLUE = ESC @ ''[34m''"
definition MAGENTA :: string where "MAGENTA = ESC @ ''[35m''"
definition CYAN :: string where "CYAN = ESC @ ''[36m''"
definition BRIGHT_BLACK :: string where "BRIGHT_BLACK = ESC @ ''[90m''"

definition colorize :: "string \<Rightarrow> string \<Rightarrow> string" where
  "colorize text color = color @ text @ RESET"

definition NL :: string where "NL = [CHR 0x0A]"
definition SQ :: string where "SQ = [CHR 0x27]"
definition DQ :: string where "DQ = [CHR 0x22]"
definition CHECK :: string where "CHECK = [CHR 0xE2, CHR 0x9C, CHR 0x93]"
definition CROSS :: string where "CROSS = [CHR 0xE2, CHR 0x9C, CHR 0x97]"
definition DASH :: string where "DASH = [CHR 0xE2, CHR 0x94, CHR 0x80]"
definition GLASS :: string where "GLASS = [CHR 0xF0, CHR 0x9F, CHR 0x94, CHR 0x8D]"

definition times :: "string \<Rightarrow> nat \<Rightarrow> string" where
  "times t n = concat (replicate n t)"

subsection \<open>Decoded Kubernetes payloads\<close>

text \<open>
  \<^verbatim>\<open>json.loads\<close> is a parameter. Its result is given in the shape of the
  Kubernetes objects the script reads, reduced to the keys it reads; a key the script
  reads with \<^verbatim>\<open>.get\<close> is optional. A pod list read as a pod, or a pod read as a
  list, has none of the keys asked for, so every \<^verbatim>\<open>.get\<close> yields its default.
\<close>

record owner_ref =
  ref_kind :: "string option"
  ref_name :: "string option"

record waiting_info =
  w_reason :: "string option"
  w_message :: "string option"

record terminated_info =
  t_reason :: "string option"
  t_exitCode :: "int option"
  t_message :: "string option"

record container_state =
  running :: bool
  waiting :: "waiting_info option"
  terminated :: "terminated_info option"

record container_status =
  cs_name :: "string option"
  cs_state :: container_state

record pod_data =
  metadata_name :: "string option"
  ownerReferences :: "owner_ref list"
  containers :: "string option list"
  initContainers :: "string option list"
  ephemeralContainers :: "string option list"
  ephemeralContainerStatuses :: "container_status list"

datatype k8s_json = JPod pod_data | JPodList "pod_data list"

definition empty_pod :: pod_data where
  "empty_pod = \<lparr>metadata_name = None, ownerReferences = [], containers = [],
     initContainers = [], ephemeralContainers = [], ephemeralContainerStatuses = []\<rparr>"

definition as_pod :: "k8s_json \<Rightarrow> pod_data" where
  "as_pod j = (case j of JPod p \<Rightarrow> p | JPodList _ \<Rightarrow> empty_pod)"

definition items :: "k8s_json \<Rightarrow> pod_data list" where
  "items j = (case j of JPodList ps \<Rightarrow> ps | JPod _ \<Rightarrow> [])"

record world =
  respond :: "nat \<Rightarrow> outcome"
  duration :: "nat \<Rightarrow> nat"
  json_loads :: "string \<Rightarrow> string + k8s_json"
  makedirs :: "string \<Rightarrow> exn option"
  strftime_now :: "int \<Rightarrow> string"

record pod_ref =
  p_name :: string
  p_namespace :: string

subsection \<open>Running commands\<close>

definition CONTROLLER_ALIASES :: "(string \<times> string) list" where
  "CONTROLLER_ALIASES =
     [(''deployment'', ''Deployment''), (''deploy'', ''Deployment''),
      (''statefulset'', ''StatefulSet''), (''sts'', ''StatefulSet''),
      (''daemonset'', ''DaemonSet''), (''ds'', ''DaemonSet'')]"

definition print_debug_command :: "string \<Rightarrow> st \<Rightarrow> st" where
  "print_debug_command cmd s =
     (if DEBUG_MODE s then
        py_print Stdout (times DASH 60 @ NL)
          (py_print Stdout cmd
            (py_print Stdout (times DASH 60)
              (py_print Stdout (GLASS @ '' DEBUG: Executing command:'')
                (py_print Stdout (NL @ times DASH 60) s))))
      else s)"

definition subprocess_run :: "world \<Rightarrow> proc \<Rightarrow> st \<Rightarrow> outcome \<times> st" where
  "subprocess_run w p s =
     (respond w (issued s),
      s\<lparr>now := now s + int (duration w (issued s)),
        issued := Suc (issued s),
        trace := trace s @ [p]\<rparr>)"

text \<open>
  \<^verbatim>\<open>subprocess.run(..., check=check)\<close> raises \<^verbatim>\<open>CalledProcessError\<close> only when
  \<open>check\<close> is set and the return code is not zero; \<open>run_command\<close> then prints two lines
  and returns \<^verbatim>\<open>None\<close>. Its \<^verbatim>\<open>raise\<close> for \<open>check = False\<close> is never reached.
  Any other exception of the subprocess goes through.
\<close>

definition run_command ::
  "world \<Rightarrow> string \<Rightarrow> bool \<Rightarrow> bool \<Rightarrow> st \<Rightarrow> (exn + string option) \<times> st"
where
  "run_command w cmd check use_bash s =
     (case subprocess_run w (if use_bash then Argv [''bash'', ''-c'', cmd] else Shell cmd)
             (print_debug_command cmd s) of
        (Raised e, s') \<Rightarrow> (Inl e, s')
      | (Returned (Completed returncode stdout stderr), s') \<Rightarrow>
          if check \<and> returncode \<noteq> 0
          then (Inr None,
                py_print Stderr (''Error: '' @ stderr)
                  (py_print Stderr (''Error running command: '' @ cmd) s'))
          else (Inr (Some (strip stdout)), s'))"

text \<open>
  The command lines, one definition for each f-string the script passes to
  \<open>run_command\<close>.
\<close>

definition namespace_cmd :: string where
  "namespace_cmd =
     ''kubectl config view --minify --output '' @ SQ @ ''jsonpath={..namespace}'' @ SQ"

definition get_pod_cmd :: "string \<Rightarrow> string \<Rightarrow> string" where
  "get_pod_cmd pod_name namespace =
     ''kubectl get pod '' @ pod_name @ '' -n '' @ namespace @ '' -o json''"

definition get_pods_cmd :: "string \<Rightarrow> string" where
  "get_pods_cmd namespace = ''kubectl get pods -n '' @ namespace @ '' -o json''"

definition verify_cmd :: "string \<Rightarrow> string \<Rightarrow> string \<Rightarrow> string \<Rightarrow> string" where
  "verify_cmd pod_name namespace container_name backup_path =
     ''kubectl exec '' @ pod_name @ '' -n '' @ namespace @ '' -c '' @ container_name
       @ '' -- ls -d '' @ backup_path @ '' 2>/dev/null''"

definition parent_cmd :: "string \<Rightarrow> string \<Rightarrow> string \<Rightarrow> string \<Rightarrow> string" where
  "parent_cmd pod_name namespace container_name parent_dir =
     ''kubectl exec '' @ pod_name @ '' -n '' @ namespace @ '' -c '' @ container_name
       @ '' -- ls -la '' @ parent_dir @ '' 2>/dev/null | head -20''"

definition archive_cmd :: "string \<Rightarrow> string \<Rightarrow> string \<Rightarrow> string \<Rightarrow> string" where
  "archive_cmd pod_name namespace container_name backup_path =
     (let backup_cmd = ''tar czf /tmp/kdebug-backup.tar.gz '' @ backup_path
      in ''kubectl exec '' @ pod_name @ '' -n '' @ namespace @ '' -c '' @ container_name
           @ '' -- /bin/bash -c '' @ SQ @ backup_cmd @ SQ)"

definition copy_archive_cmd :: "string \<Rightarrow> string \<Rightarrow> string \<Rightarrow> string \<Rightarrow> string" where
  "copy_archive_cmd pod_name namespace container_name local_filename =
     ''kubectl cp -n '' @ namespace @ '' -c '' @ container_name @ '' '' @ pod_name
       @ '':/tmp/kdebug-backup.tar.gz '' @ local_filename"

definition cleanup_cmd :: "string \<Rightarrow> string \<Rightarrow> string \<Rightarrow> string" where
  "cleanup_cmd pod_name namespace container_name =
     ''kubectl exec '' @ pod_name @ '' -n '' @ namespace @ '' -c '' @ container_name
       @ '' -- rm -f /tmp/kdebug-backup.tar.gz''"

definition copy_direct_cmd :: "string \<Rightarrow> string \<Rightarrow> string \<Rightarrow> string \<Rightarrow> string \<Rightarrow> string" where
  "copy_direct_cmd pod_name namespace container_name backup_path local_filename =
     ''kubectl cp -n '' @ namespace @ '' -c '' @ container_name @ '' '' @ pod_name @ '':''
       @ backup_path @ '' '' @ local_filename"

definition kill_cmd :: "string \<Rightarrow> string \<Rightarrow> string \<Rightarrow> string" where
  "kill_cmd pod_name namespace debug_container =
     ''kubectl exec '' @ pod_name @ '' -n '' @ namespace @ '' -c '' @ debug_container
       @ '' -- /bin/bash -c '' @ SQ @ ''kill -9 1'' @ SQ @ '' 2>/dev/null || true''"

definition debug_cmd :: "string \<Rightarrow> string \<Rightarrow> string \<Rightarrow> string option \<Rightarrow> bool \<Rightarrow> string" where
  "debug_cmd pod_name namespace debug_image target_container as_root =
     (let cmd_parts =
            [''nohup kubectl debug -i --tty'', pod_name, ''--namespace='' @ namespace]
            @ (if truthy target_container then [''--target='' @ the target_container] else [])
            @ [''--share-processes'', ''--profile=general'']
            @ (if as_root
               then [''--custom=<(echo '' @ SQ @ ''{'' @ DQ @ ''securityContext'' @ DQ
                       @ '':{'' @ DQ @ ''runAsUser'' @ DQ @ '':0}}'' @ SQ @ '')'']
               else [])
            @ [''--image='' @ debug_image, ''-- sleep 300 > /dev/null 2>&1 &'']
      in join '' '' cmd_parts)"

subsection \<open>Pod Resolver\<close>

definition get_current_namespace :: "world \<Rightarrow> st \<Rightarrow> (exn + string) \<times> st" where
  "get_current_namespace w s =
     (case run_command w namespace_cmd False False s of
        (Inl e, s) \<Rightarrow> (Inl e, s)
      | (Inr res, s) \<Rightarrow> (Inr (if truthy res then the res else ''default''), s))"

definition get_pod_by_name ::
  "world \<Rightarrow> string \<Rightarrow> string \<Rightarrow> st \<Rightarrow> (exn + pod_ref option) \<times> st"
where
  "get_pod_by_name w pod_name namespace s =
     (let s = py_print Stdout
                (''Looking up pod '' @ colorize pod_name CYAN @ '' in namespace ''
                   @ colorize namespace MAGENTA @ ''...'') s
      in case run_command w (get_pod_cmd pod_name namespace) False False s of
           (Inl e, s) \<Rightarrow> (Inl e, s)
         | (Inr res, s) \<Rightarrow>
             if \<not> truthy res
             then (Inr None,
                   py_print Stderr
                     (colorize (CROSS @ '' Error:'') RED @ '' Pod '' @ SQ @ pod_name @ SQ
                        @ '' not found in namespace '' @ SQ @ namespace @ SQ) s)
             else (case json_loads w (the res) of
                     Inr pod_data \<Rightarrow>
                       (Inr (Some \<lparr>p_name = get_default (metadata_name (as_pod pod_data)) [],
                                    p_namespace = namespace\<rparr>), s)
                   | Inl e \<Rightarrow>
                       (Inr None, py_print Stderr (''Error parsing pod JSON: '' @ e) s)))"

text \<open>The two inner loops over the owner references, and the loop over the pods.\<close>

fun direct_owner :: "string \<Rightarrow> string \<Rightarrow> owner_ref list \<Rightarrow> bool" where
  "direct_owner controller_kind controller_name [] = False"
| "direct_owner controller_kind controller_name (ref # owner_refs) =
     (if ref_kind ref = Some controller_kind \<and> ref_name ref = Some controller_name
      then True
      else direct_owner controller_kind controller_name owner_refs)"

fun replicaset_owner :: "string \<Rightarrow> owner_ref list \<Rightarrow> bool" where
  "replicaset_owner controller_name [] = False"
| "replicaset_owner controller_name (ref # owner_refs) =
     (if ref_kind ref = Some ''ReplicaSet''
         \<and> prefix (controller_name @ ''-'') (get_default (ref_name ref) [])
      then True
      else replicaset_owner controller_name owner_refs)"

fun matching_pods :: "string \<Rightarrow> string \<Rightarrow> string \<Rightarrow> pod_data list \<Rightarrow> pod_ref list" where
  "matching_pods controller_kind controller_name namespace [] = []"
| "matching_pods controller_kind controller_name namespace (pod # pods) =
     (let pod_name = get_default (metadata_name pod) [];
          owner_refs = ownerReferences pod;
          pod_matched = direct_owner controller_kind controller_name owner_refs
      in if pod_matched
         then \<lparr>p_name = pod_name, p_namespace = namespace\<rparr>
                # matching_pods controller_kind controller_name namespace pods
         else if controller_kind = ''Deployment'' \<and> replicaset_owner controller_name owner_refs
         then \<lparr>p_name = pod_name, p_namespace = namespace\<rparr>
                # matching_pods controller_kind controller_name namespace pods
         else matching_pods controller_kind controller_name namespace pods)"

definition get_pods_by_controller ::
  "world \<Rightarrow> string \<Rightarrow> string \<Rightarrow> string \<Rightarrow> st \<Rightarrow> (exn + pod_ref list) \<times> st"
where
  "get_pods_by_controller w controller_type controller_name namespace s =
     (case map_of CONTROLLER_ALIASES (lower controller_type) of
        None \<Rightarrow>
          (let s = py_print Stderr
                     (''Error: Unknown controller type '' @ SQ @ controller_type @ SQ) s;
               s = py_print Stderr
                     (''Supported types: '' @ join '', '' (map fst CONTROLLER_ALIASES)) s
           in (Inr [], s))
      | Some controller_kind \<Rightarrow>
          (let s = py_print Stdout
                     (''Searching for pods from '' @ colorize controller_kind YELLOW @ '' ''
                        @ colorize controller_name CYAN @ '' in namespace ''
                        @ colorize namespace MAGENTA @ ''...'') s
           in case run_command w (get_pods_cmd namespace) False False s of
                (Inl e, s) \<Rightarrow> (Inl e, s)
              | (Inr res, s) \<Rightarrow>
                  if \<not> truthy res
                  then (Inr [], py_print Stderr ''Error: Failed to get pods'' s)
                  else (case json_loads w (the res) of
                          Inl e \<Rightarrow>
                            (Inr [], py_print Stderr (''Error parsing pods JSON: '' @ e) s)
                        | Inr pods_data \<Rightarrow>
                            (Inr (matching_pods controller_kind controller_name namespace
                                    (items pods_data)), s))))"

record args =
  a_pod :: "string option"
  a_controller :: "string option"
  a_controller_name :: "string option"
  a_namespace :: "string option"
  a_container :: "string option"
  a_debug_image :: string
  a_cmd :: string
  a_cd_into :: "string option"
  a_backup :: "string option"
  a_compress :: bool
  a_as_root :: bool
  a_debug :: bool

definition select_pod :: "world \<Rightarrow> args \<Rightarrow> st \<Rightarrow> (exn + pod_ref option) \<times> st" where
  "select_pod w args s =
     (case (if truthy (a_namespace args) then (Inr (the (a_namespace args)), s)
            else get_current_namespace w s) of
        (Inl e, s) \<Rightarrow> (Inl e, s)
      | (Inr namespace, s) \<Rightarrow>
          if truthy (a_pod args) then get_pod_by_name w (the (a_pod args)) namespace s
          else if truthy (a_controller args) then
            (if \<not> truthy (a_controller_name args)
             then (Inr None,
                   py_print Stderr
                     ''Error: --controller-name is required when using --controller'' s)
             else (case get_pods_by_controller w (the (a_controller args))
                          (the (a_controller_name args)) namespace s of
                     (Inl e, s) \<Rightarrow> (Inl e, s)
                   | (Inr pods, s) \<Rightarrow>
                       if pods = []
                       then (Inr None,
                             py_print Stderr
                               (''No pods found for '' @ the (a_controller args) @ '' '' @ SQ
                                  @ the (a_controller_name args) @ SQ) s)
                       else (let s = (if length pods > 1
                                      then py_print Stdout
                                             (''Found '' @ colorize (str_nat (length pods)) YELLOW
                                                @ '' pods, selecting first one: ''
                                                @ colorize (p_name (hd pods)) CYAN) s
                                      else s)
                             in (Inr (Some (hd pods)), s))))
          else (Inr None,
                py_print Stderr ''Error: Either --pod or --controller must be specified'' s))"

subsection \<open>Container Inventory\<close>

record container_info =
  ci_containers :: "string list"
  ci_init_containers :: "string list"
  ci_ephemeral_containers :: "string list"

definition no_containers :: container_info where
  "no_containers = \<lparr>ci_containers = [], ci_init_containers = [], ci_ephemeral_containers = []\<rparr>"

definition names_of :: "string option list \<Rightarrow> string list" where
  "names_of cs = map the (filter truthy cs)"

definition get_pod_containers ::
  "world \<Rightarrow> string \<Rightarrow> string \<Rightarrow> st \<Rightarrow> (exn + container_info) \<times> st"
where
  "get_pod_containers w pod_name namespace s =
     (case run_command w (get_pod_cmd pod_name namespace) True False s of
        (Inl e, s) \<Rightarrow> (Inl e, s)
      | (Inr res, s) \<Rightarrow>
          if \<not> truthy res then (Inr no_containers, s)
          else (case json_loads w (the res) of
                  Inl e \<Rightarrow>
                    (Inr no_containers, py_print Stderr (''Error parsing pod JSON: '' @ e) s)
                | Inr pod_data \<Rightarrow>
                    (Inr \<lparr>ci_containers = names_of (containers (as_pod pod_data)),
                          ci_init_containers = names_of (initContainers (as_pod pod_data)),
                          ci_ephemeral_containers =
                            names_of (ephemeralContainers (as_pod pod_data))\<rparr>, s)))"

definition get_existing_ephemeral_containers ::
  "world \<Rightarrow> string \<Rightarrow> string \<Rightarrow> st \<Rightarrow> (exn + string list) \<times> st"
where
  "get_existing_ephemeral_containers w pod_name namespace s =
     (case get_pod_containers w pod_name namespace s of
        (Inl e, s) \<Rightarrow> (Inl e, s)
      | (Inr container_info, s) \<Rightarrow> (Inr (ci_ephemeral_containers container_info), s))"

subsection \<open>Debug Container Provisioner\<close>

definition failure_states :: "string list" where
  "failure_states =
     [''ImagePullBackOff'', ''ErrImagePull'', ''CrashLoopBackOff'', ''CreateContainerError'',
      ''InvalidImageName'', ''CreateContainerConfigError'']"

text \<open>
  The body of the \<^verbatim>\<open>for status in ephemeral_statuses\<close> loop. The first
  component of the result is \<open>Some b\<close> when the body executes \<^verbatim>\<open>return b\<close>
  and \<open>None\<close> when the loop goes on; the second is \<^verbatim>\<open>last_reason\<close>.
\<close>

definition check_status ::
  "string \<Rightarrow> container_status \<Rightarrow> string option \<Rightarrow> st \<Rightarrow> bool option \<times> string option \<times> st"
where
  "check_status container_name status last_reason s =
     (if cs_name status = Some container_name then
        (if running (cs_state status) then
           (Some True, last_reason,
            py_print Stdout
              (colorize CHECK GREEN @ '' Container '' @ colorize container_name CYAN
                 @ '' is '' @ colorize ''running'' GREEN) s)
         else (case waiting (cs_state status) of
           Some waiting_info \<Rightarrow>
             (let reason = get_default (w_reason waiting_info) ''Unknown'';
                  message = get_default (w_message waiting_info) []
              in if reason \<in> set failure_states then
                   (Some False, last_reason,
                    (if message \<noteq> []
                     then py_print Stderr (colorize ''Error details:'' RED @ '' '' @ message)
                     else (\<lambda>s. s))
                      (py_print Stderr
                         (colorize CROSS RED @ '' Container failed to start: ''
                            @ colorize reason RED) s))
                 else if Some reason \<noteq> last_reason then
                   (None, Some reason,
                    py_print Stdout (''Container status: '' @ colorize reason YELLOW) s)
                 else (None, last_reason, s))
         | None \<Rightarrow>
            (case terminated (cs_state status) of
               Some terminated_info \<Rightarrow>
                 (let reason = get_default (t_reason terminated_info) ''Unknown'';
                      exit_code = (case t_exitCode terminated_info of
                                     None \<Rightarrow> ''N/A'' | Some n \<Rightarrow> str_int n);
                      message = get_default (t_message terminated_info) []
                  in (Some False, last_reason,
                      (if message \<noteq> []
                       then py_print Stderr (colorize ''Error details:'' RED @ '' '' @ message)
                       else (\<lambda>s. s))
                        (py_print Stderr
                           (colorize CROSS RED @ '' Container terminated: ''
                              @ colorize reason RED @ '' (exit code: ''
                              @ colorize exit_code RED @ '')'') s)))
             | None \<Rightarrow>
                 (if last_reason \<noteq> Some ''NoState'' then
                    (None, Some ''NoState'',
                     py_print Stdout ''Container status: Initializing...'' s)
                  else (None, last_reason, s)))))
      else (None, last_reason, s))"

text \<open>The loop itself: it ends at the first \<^verbatim>\<open>return\<close>, or with the list.\<close>

fun check_statuses ::
  "string \<Rightarrow> container_status list \<Rightarrow> string option \<Rightarrow> st \<Rightarrow> bool option \<times> string option \<times> st"
where
  "check_statuses container_name [] last_reason s = (None, last_reason, s)"
| "check_statuses container_name (status # statuses) last_reason s =
     (case check_status container_name status last_reason s of
        (Some b, last_reason', s') \<Rightarrow> (Some b, last_reason', s')
      | (None, last_reason', s') \<Rightarrow> check_statuses container_name statuses last_reason' s')"

text \<open>
  One iteration of the \<^verbatim>\<open>while\<close> loop: \<open>Some b\<close> when the iteration returns \<open>b\<close>
  from the function, \<open>None\<close> when it goes on to the next test of the loop condition
  (after \<^verbatim>\<open>time.sleep(2)\<close>, on both of its ways there).
\<close>

definition poll_once ::
  "world \<Rightarrow> string \<Rightarrow> string \<Rightarrow> string \<Rightarrow> string option \<Rightarrow> st
     \<Rightarrow> (exn + bool option \<times> string option) \<times> st"
where
  "poll_once w pod_name namespace container_name last_reason s =
     (case run_command w (get_pod_cmd pod_name namespace) True False s of
        (Inl e, s) \<Rightarrow> (Inl e, s)
      | (Inr res, s) \<Rightarrow>
          if \<not> truthy res then (Inr (None, last_reason), sleep 2 s)
          else (case json_loads w (the res) of
                  Inl e \<Rightarrow>
                    (let s = py_print Stderr (''Warning: Failed to parse pod JSON: '' @ e) s
                     in (Inr (None, last_reason), sleep 2 s))
                | Inr pod_data \<Rightarrow>
                    (case check_statuses container_name
                            (ephemeralContainerStatuses (as_pod pod_data)) last_reason s of
                       (Some b, last_reason, s) \<Rightarrow> (Inr (Some b, last_reason), s)
                     | (None, last_reason, s) \<Rightarrow> (Inr (None, last_reason), sleep 2 s))))"

text \<open>What each step leaves of the state: needed for the termination of the polling loop.\<close>

lemma py_print_fields [simp]:
  "now (py_print f t s) = now s" "issued (py_print f t s) = issued s"
  "trace (py_print f t s) = trace s" "DEBUG_MODE (py_print f t s) = DEBUG_MODE s"
  "out (py_print f t s) = out s @ [(f, t)]"
  by (simp_all add: py_print_def)

lemma sleep_fields [simp]:
  "now (sleep d s) = now s + d" "issued (sleep d s) = issued s"
  "trace (sleep d s) = trace s" "DEBUG_MODE (sleep d s) = DEBUG_MODE s"
  "out (sleep d s) = out s"
  by (simp_all add: sleep_def)

lemma print_debug_command_fields [simp]:
  "now (print_debug_command c s) = now s" "issued (print_debug_command c s) = issued s"
  "trace (print_debug_command c s) = trace s"
  "DEBUG_MODE (print_debug_command c s) = DEBUG_MODE s"
  by (simp_all add: print_debug_command_def)

lemma run_command_fields:
  assumes "run_command w cmd check use_bash s = (r, s')"
  shows "now s' = now s + int (duration w (issued s))"
    and "issued s' = Suc (issued s)"
    and "trace s' = trace s @ [if use_bash then Argv [''bash'', ''-c'', cmd] else Shell cmd]"
    and "DEBUG_MODE s' = DEBUG_MODE s"
  using assms
  by (auto simp: run_command_def subprocess_run_def
      split: outcome.splits completed.splits if_splits)

lemma check_status_fields [simp]:
  "now (snd (snd (check_status c status l s))) = now s"
  "issued (snd (snd (check_status c status l s))) = issued s"
  "trace (snd (snd (check_status c status l s))) = trace s"
  "DEBUG_MODE (snd (snd (check_status c status l s))) = DEBUG_MODE s"
  by (simp_all add: check_status_def Let_def split: option.split)

lemma check_statuses_fields:
  "now (snd (snd (check_statuses c sts l s))) = now s
     \<and> issued (snd (snd (check_statuses c sts l s))) = issued s
     \<and> trace (snd (snd (check_statuses c sts l s))) = trace s
     \<and> DEBUG_MODE (snd (snd (check_statuses c sts l s))) = DEBUG_MODE s"
proof (induction sts arbitrary: l s)
  case Nil
  show ?case by simp
next
  case (Cons status sts)
  obtain r l' s' where cs: "check_status c status l s = (r, l', s')"
    by (cases "check_status c status l s") auto
  have fr: "now s' = now s" "issued s' = issued s" "trace s' = trace s"
    "DEBUG_MODE s' = DEBUG_MODE s"
    using check_status_fields [of c status l s] by (simp_all add: cs)
  show ?case
  proof (cases r)
    case None
    with cs Cons.IH [of l' s'] fr show ?thesis by simp
  next
    case (Some b)
    with cs fr show ?thesis by simp
  qed
qed

lemma poll_once_continue:
  assumes "poll_once w p n c l s = (Inr (None, l'), s')"
  shows "now s' = now s + int (duration w (issued s)) + 2"
proof -
  obtain r s1 where rc:
    "run_command w (get_pod_cmd p n) True False s = (r, s1)"
    by (cases "run_command w (get_pod_cmd p n) True False s") auto
  note n1 = run_command_fields(1) [OF rc]
  from assms have po: "(case r of Inl e \<Rightarrow> (Inl e, s1)
      | Inr res \<Rightarrow>
          if \<not> truthy res then (Inr (None, l), sleep 2 s1)
          else (case json_loads w (the res) of
                  Inl e \<Rightarrow>
                    (let s = py_print Stderr (''Warning: Failed to parse pod JSON: '' @ e) s1
                     in (Inr (None, l), sleep 2 s))
                | Inr pod_data \<Rightarrow>
                    (case check_statuses c (ephemeralContainerStatuses (as_pod pod_data)) l s1 of
                       (Some b, last_reason, s) \<Rightarrow> (Inr (Some b, last_reason), s)
                     | (None, last_reason, s) \<Rightarrow> (Inr (None, last_reason), sleep 2 s))))
      = (Inr (None, l'), s')"
    unfolding poll_once_def rc by simp
  show ?thesis
  proof (cases r)
    case (Inl e)
    with po show ?thesis by simp
  next
    case (Inr res)
    show ?thesis
    proof (cases "truthy res")
      case False
      with po Inr n1 show ?thesis by auto
    next
      case True
      show ?thesis
      proof (cases "json_loads w (the res)")
        case (Inl e)
        with True po Inr n1 show ?thesis by auto
      next
        case pd: (Inr pod_data)
        obtain b l2 s2 where cs: "check_statuses c
            (ephemeralContainerStatuses (as_pod pod_data)) l s1 = (b, l2, s2)"
          by (cases "check_statuses c (ephemeralContainerStatuses (as_pod pod_data)) l s1") auto
        have "now s2 = now s1"
          using check_statuses_fields [of c "ephemeralContainerStatuses (as_pod pod_data)" l s1]
          by (simp add: cs)
        with True Inr pd po n1 cs show ?thesis
          by (cases b) auto
      qed
    qed
  qed
qed

text \<open>
  The \<^verbatim>\<open>while time.time() - start_time < timeout\<close> loop. \<open>Some b\<close>: the loop
  returned \<open>b\<close> from the function; \<open>None\<close>: the loop condition failed.
\<close>

function wait_loop ::
  "world \<Rightarrow> string \<Rightarrow> string \<Rightarrow> string \<Rightarrow> int \<Rightarrow> int \<Rightarrow> string option \<Rightarrow> st
     \<Rightarrow> (exn + bool option \<times> string option) \<times> st"
where
  "wait_loop w pod_name namespace container_name timeout start_time last_reason s =
     (if now s - start_time < timeout then
        (case poll_once w pod_name namespace container_name last_reason s of
           (Inl e, s') \<Rightarrow> (Inl e, s')
         | (Inr (Some b, last_reason'), s') \<Rightarrow> (Inr (Some b, last_reason'), s')
         | (Inr (None, last_reason'), s') \<Rightarrow>
             wait_loop w pod_name namespace container_name timeout start_time last_reason' s')
      else (Inr (None, last_reason), s))"
  by pat_completeness auto
termination
proof (relation "measure (\<lambda>(w, p, n, c, timeout, start_time, l, s).
                   nat (timeout - (now s - start_time)))")
  show "wf (measure (\<lambda>(w, p, n, c, timeout, start_time, l, s).
              nat (timeout - (now s - start_time))))"
    by simp
next
  fix w p n c timeout start_time l s x1 x2 y x1a x2a
  assume a: "now s - start_time < timeout"
    and b: "(x1, x2) = poll_once w p n c l s" "x1 = Inr y" "(x1a, x2a) = y" "x1a = None"
  from b have "poll_once w p n c l s = (Inr (None, x2a), x2)" by simp
  from poll_once_continue[OF this] a
  show "((w, p, n, c, timeout, start_time, x2a, x2), (w, p, n, c, timeout, start_time, l, s))
        \<in> measure (\<lambda>(w, p, n, c, timeout, start_time, l, s).
              nat (timeout - (now s - start_time)))"
    by simp
qed

declare wait_loop.simps [simp del]

definition wait_for_container_running ::
  "world \<Rightarrow> string \<Rightarrow> string \<Rightarrow> string \<Rightarrow> int \<Rightarrow> st \<Rightarrow> (exn + bool) \<times> st"
where
  "wait_for_container_running w pod_name namespace container_name timeout s =
     (let s0 = py_print Stdout
                 (''Waiting for container '' @ colorize container_name CYAN
                    @ '' to be running...'') s;
          start_time = now s0
      in case wait_loop w pod_name namespace container_name timeout start_time None s0 of
           (Inl e, s') \<Rightarrow> (Inl e, s')
         | (Inr (Some b, last_reason), s') \<Rightarrow> (Inr b, s')
         | (Inr (None, last_reason), s') \<Rightarrow>
             (Inr False,
              (if truthy last_reason
               then py_print Stderr
                      (''Last known status: '' @ colorize (the last_reason) YELLOW)
               else (\<lambda>s. s))
                (py_print Stderr
                   (colorize CROSS RED @ '' Timeout ('' @ str_int timeout
                      @ ''s) waiting for container to start'') s')))"

definition launch_debug_container ::
  "world \<Rightarrow> string \<Rightarrow> string \<Rightarrow> string \<Rightarrow> string option \<Rightarrow> string list \<Rightarrow> bool \<Rightarrow> st
     \<Rightarrow> (exn + string option) \<times> st"
where
  "launch_debug_container w pod_name namespace debug_image target_container
       existing_containers as_root s =
     (let s = py_print Stdout
                (''Launching debug container for pod '' @ colorize pod_name CYAN @ ''...'') s;
          s = (if existing_containers \<noteq> []
               then py_print Stdout
                      (''Existing ephemeral containers: ''
                         @ colorize (join '', '' existing_containers) BRIGHT_BLACK) s
               else s);
          cmd = debug_cmd pod_name namespace debug_image target_container as_root
      in case run_command w cmd False True s of
           (Inl e, s) \<Rightarrow> (Inl e, s)
         | (Inr _, s) \<Rightarrow>
            (case get_existing_ephemeral_containers w pod_name namespace (sleep 2 s) of
               (Inl e, s) \<Rightarrow> (Inl e, s)
             | (Inr new_containers, s) \<Rightarrow>
                (let new_container_names =
                       filter (\<lambda>name. name \<notin> set existing_containers) new_containers
                 in if new_container_names = []
                    then (Inr None,
                          py_print Stderr
                            ''Error: Could not identify newly created debug container'' s)
                    else
                      (let debug_container = hd new_container_names;
                           s = py_print Stdout
                                 (colorize CHECK GREEN @ '' Created debug container: ''
                                    @ colorize debug_container CYAN) s
                       in case wait_for_container_running w pod_name namespace
                                 debug_container 60 s of
                            (Inl e, s) \<Rightarrow> (Inl e, s)
                          | (Inr ok, s) \<Rightarrow>
                              if \<not> ok
                              then (Inr None,
                                    py_print Stderr ''Error: Debug container failed to start'' s)
                              else (Inr (Some debug_container), s)))))"

subsection \<open>Operation Executor\<close>

definition exec_interactive ::
  "world \<Rightarrow> string \<Rightarrow> string \<Rightarrow> string \<Rightarrow> string \<Rightarrow> string option \<Rightarrow> st \<Rightarrow> (exn + int) \<times> st"
where
  "exec_interactive w pod_name namespace container_name cmd cd_into s =
     (let s = py_print Stdout (NL @ colorize (times ''='' 60) BLUE) s;
          s = py_print Stdout
                (colorize ''Starting interactive session'' BOLD @ '' in pod ''
                   @ colorize pod_name CYAN) s;
          s = py_print Stdout (''Container: '' @ colorize container_name CYAN) s;
          s = py_print Stdout (''Command: '' @ colorize cmd YELLOW) s;
          s = (if truthy cd_into
               then py_print Stdout (''Directory: '' @ colorize (the cd_into) MAGENTA) s
               else s);
          s = py_print Stdout (colorize (times ''='' 60) BLUE @ NL) s;
          cmd = (if truthy cd_into then
                   (if cmd = ''bash''
                    then ''bash -c '' @ SQ @ ''cd /proc/1/root'' @ the cd_into
                           @ '' && exec bash'' @ SQ
                    else if cmd = ''sh''
                    then ''sh -c '' @ SQ @ ''cd /proc/1/root'' @ the cd_into
                           @ '' && exec sh'' @ SQ
                    else ''bash -c '' @ SQ @ ''cd /proc/1/root'' @ the cd_into
                           @ '' && '' @ cmd @ SQ)
                 else cmd);
          kubectl_cmd =
            [''kubectl'', ''exec'', ''-it'', pod_name, ''-n'', namespace, ''-c'',
             container_name, ''--'']
            @ (if prefix ''bash -c'' cmd \<or> prefix ''sh -c'' cmd
               then [''sh'', ''-c'', cmd] else [cmd]);
          s = print_debug_command (join '' '' kubectl_cmd) s
      in case subprocess_run w (Argv kubectl_cmd) s of
           (Returned (Completed returncode stdout stderr), s) \<Rightarrow> (Inr returncode, s)
         | (Raised KeyboardInterrupt, s) \<Rightarrow>
             (Inr 130, py_print Stdout (NL @ NL @ ''Interrupted by user'') s)
         | (Raised (Exception e), s) \<Rightarrow>
             (Inr 1, py_print Stderr (''Error executing interactive command: '' @ e) s)
         | (Raised (BaseException e), s) \<Rightarrow> (Inl (BaseException e), s))"

text \<open>
  \<open>create_backup\<close>, in four parts: the branch taken when the path is not found, the
  compressed branch, the direct branch, and the function itself. Every command is run
  with \<open>check = False\<close>, so \<open>run_command\<close> returns the stripped standard output
  whatever the return code is.
\<close>

definition create_backup_not_found ::
  "world \<Rightarrow> string \<Rightarrow> string \<Rightarrow> string \<Rightarrow> string \<Rightarrow> st \<Rightarrow> (exn + bool) \<times> st"
where
  "create_backup_not_found w pod_name namespace container_name backup_path s =
     (let s = py_print Stderr
                (colorize (CROSS @ '' Error:'') RED @ '' Path '' @ colorize backup_path MAGENTA
                   @ '' does not exist in container'') s;
          parent_dir = dirname backup_path
      in if parent_dir \<noteq> [] \<and> parent_dir \<noteq> ''/'' then
           (let s = py_print Stdout
                      (colorize ''Checking parent directory:'' YELLOW @ '' '' @ parent_dir) s
            in case run_command w (parent_cmd pod_name namespace container_name parent_dir)
                      False False s of
                 (Inl e, s) \<Rightarrow> (Inl e, s)
               | (Inr parent_result, s) \<Rightarrow>
                   (Inr False,
                    if truthy parent_result
                    then py_print Stdout
                           (colorize ''Contents:'' BRIGHT_BLACK @ NL @ the parent_result) s
                    else s))
         else (Inr False, s))"

definition create_backup_compressed ::
  "world \<Rightarrow> string \<Rightarrow> string \<Rightarrow> string \<Rightarrow> string \<Rightarrow> string \<Rightarrow> string \<Rightarrow> st
     \<Rightarrow> (exn + bool) \<times> st"
where
  "create_backup_compressed w pod_name namespace container_name backup_path backup_dir
       date_string s =
     (let s = py_print Stdout (colorize ''Creating tar.gz archive...'' YELLOW) s
      in case run_command w (archive_cmd pod_name namespace container_name backup_path)
                False False s of
           (Inl e, s) \<Rightarrow> (Inl e, s)
         | (Inr result, s) \<Rightarrow>
            if result = None
            then (Inr False, py_print Stderr (colorize CROSS RED @ '' Backup command failed'') s)
            else
              (let s = py_print Stdout (colorize CHECK GREEN @ '' Backup archive created'') s;
                   s = py_print Stdout
                         (colorize ''Copying backup to local machine...'' YELLOW) s;
                   local_filename =
                     backup_dir @ ''/'' @ date_string @ ''_'' @ pod_name @ ''.tar.gz''
               in case run_command w
                         (copy_archive_cmd pod_name namespace container_name local_filename)
                         False False s of
                    (Inl e, s) \<Rightarrow> (Inl e, s)
                  | (Inr result, s) \<Rightarrow>
                     if result = None
                     then (Inr False,
                           py_print Stderr (colorize CROSS RED @ '' Failed to copy backup'') s)
                     else
                       (let s = py_print Stdout
                                  (colorize CHECK GREEN @ '' Backup saved to: ''
                                     @ colorize local_filename GREEN) s
                        in case run_command w (cleanup_cmd pod_name namespace container_name)
                                  False False s of
                             (Inl e, s) \<Rightarrow> (Inl e, s)
                           | (Inr _, s) \<Rightarrow> (Inr True, s))))"

definition create_backup_direct ::
  "world \<Rightarrow> string \<Rightarrow> string \<Rightarrow> string \<Rightarrow> string \<Rightarrow> string \<Rightarrow> string \<Rightarrow> st
     \<Rightarrow> (exn + bool) \<times> st"
where
  "create_backup_direct w pod_name namespace container_name backup_path backup_dir
       date_string s =
     (let s = py_print Stdout
                (colorize ''Copying files directly (uncompressed)...'' YELLOW) s;
          local_filename = backup_dir @ ''/'' @ date_string @ ''_'' @ pod_name
      in case run_command w
                (copy_direct_cmd pod_name namespace container_name backup_path local_filename)
                False False s of
           (Inl e, s) \<Rightarrow> (Inl e, s)
         | (Inr result, s) \<Rightarrow>
            if result = None
            then (Inr False,
                  py_print Stderr (colorize CROSS RED @ '' Failed to copy backup'') s)
            else (Inr True,
                  py_print Stdout
                    (colorize CHECK GREEN @ '' Backup saved to: ''
                       @ colorize local_filename GREEN) s))"

definition create_backup ::
  "world \<Rightarrow> string \<Rightarrow> string \<Rightarrow> string \<Rightarrow> string \<Rightarrow> bool \<Rightarrow> st \<Rightarrow> (exn + bool) \<times> st"
where
  "create_backup w pod_name namespace container_name backup_path compress s =
     (let s = py_print Stdout (NL @ colorize (times ''='' 60) BLUE) s;
          s = py_print Stdout
                (colorize ''Creating backup'' BOLD @ '' from pod '' @ colorize pod_name CYAN) s;
          s = py_print Stdout (''Path: '' @ colorize backup_path MAGENTA) s;
          s = (if compress
               then py_print Stdout (''Mode: '' @ colorize ''Compressed (tar.gz)'' YELLOW) s
               else py_print Stdout
                      (''Mode: '' @ colorize ''Direct copy (uncompressed)'' YELLOW) s);
          s = py_print Stdout (colorize (times ''='' 60) BLUE @ NL) s;
          s = py_print Stdout (colorize ''Verifying backup path exists...'' YELLOW) s
      in case run_command w (verify_cmd pod_name namespace container_name backup_path)
                False False s of
           (Inl e, s) \<Rightarrow> (Inl e, s)
         | (Inr result, s) \<Rightarrow>
            if \<not> truthy result \<or> strip (the result) = []
            then create_backup_not_found w pod_name namespace container_name backup_path s
            else
              (let s = py_print Stdout
                         (colorize CHECK GREEN @ '' Path exists: '' @ strip (the result)) s;
                   backup_dir = ''./backups/'' @ namespace
               in case makedirs w backup_dir of
                    Some e \<Rightarrow> (Inl e, s)
                  | None \<Rightarrow>
                     (let date_string = strftime_now w (now s)
                      in if compress
                         then create_backup_compressed w pod_name namespace container_name
                                backup_path backup_dir date_string s
                         else create_backup_direct w pod_name namespace container_name
                                backup_path backup_dir date_string s)))"

subsection \<open>Cleanup Guarantor\<close>

definition cleanup_debug_container ::
  "world \<Rightarrow> string \<Rightarrow> string \<Rightarrow> string \<Rightarrow> st \<Rightarrow> (exn + bool) \<times> st"
where
  "cleanup_debug_container w pod_name namespace debug_container s =
     (let s = py_print Stdout (NL @ colorize ''Cleaning up debug container...'' YELLOW) s
      in case run_command w (kill_cmd pod_name namespace debug_container) False False s of
           (Inl e, s) \<Rightarrow> (Inl e, s)
         | (Inr _, s) \<Rightarrow>
             (Inr True,
              py_print Stdout (colorize CHECK GREEN @ '' Debug container cleanup initiated'') s))"

subsection \<open>The top level\<close>

text \<open>
  \<open>main\<close> after \<^verbatim>\<open>parser.parse_args()\<close>, in two parts: everything up to the
  launch of the debug container, which ends in \<^verbatim>\<open>sys.exit\<close> (\<open>Inl\<close> of the exit
  code) or with the pod, the namespace and the debug container; and the
  \<^verbatim>\<open>try\<close> statement with its \<^verbatim>\<open>finally\<close>, followed by
  \<^verbatim>\<open>sys.exit(exit_code)\<close>. \<^verbatim>\<open>parser.error\<close> exits with status 2.
\<close>

definition main_provision ::
  "world \<Rightarrow> args \<Rightarrow> st \<Rightarrow> (exn + (int + string \<times> string \<times> string)) \<times> st"
where
  "main_provision w args s =
     (let s = s\<lparr>DEBUG_MODE := a_debug args\<rparr>
      in if \<not> truthy (a_pod args) \<and> \<not> truthy (a_controller args)
         then (Inr (Inl 2),
               py_print Stderr ''error: Either --pod or --controller must be specified'' s)
         else if truthy (a_controller args) \<and> \<not> truthy (a_controller_name args)
         then (Inr (Inl 2),
               py_print Stderr
                 ''error: --controller-name is required when using --controller'' s)
         else
          (case select_pod w args s of
             (Inl e, s) \<Rightarrow> (Inl e, s)
           | (Inr None, s) \<Rightarrow> (Inr (Inl 1), s)
           | (Inr (Some pod), s) \<Rightarrow>
              (let pod_name = p_name pod;
                   namespace = p_namespace pod
               in case (if \<not> truthy (a_container args) then
                          (case get_pod_containers w pod_name namespace s of
                             (Inl e, s) \<Rightarrow> (Inl e, s)
                           | (Inr container_info, s) \<Rightarrow>
                              (let regular_containers = ci_containers container_info
                               in if regular_containers = []
                                  then (Inr (Inl 1),
                                        py_print Stderr
                                          ''Error: No regular containers found in pod'' s)
                                  else (Inr (Inr (hd regular_containers)),
                                        py_print Stdout
                                          (''No --container specified, auto-selecting first non-ephemeral container: ''
                                             @ colorize (hd regular_containers) CYAN) s)))
                        else (Inr (Inr (the (a_container args))), s)) of
                    (Inl e, s) \<Rightarrow> (Inl e, s)
                  | (Inr (Inl code), s) \<Rightarrow> (Inr (Inl code), s)
                  | (Inr (Inr target_container), s) \<Rightarrow>
                     (let s = py_print Stdout (NL @ colorize (times ''='' 60) BLUE) s;
                          s = py_print Stdout
                                (colorize ''Target Pod:'' BOLD @ '' '' @ colorize pod_name CYAN) s;
                          s = py_print Stdout
                                (colorize ''Namespace:'' BOLD @ '' ''
                                   @ colorize namespace MAGENTA) s;
                          s = py_print Stdout
                                (colorize ''Target Container:'' BOLD @ '' ''
                                   @ colorize target_container CYAN) s;
                          s = py_print Stdout
                                (colorize ''Debug Image:'' BOLD @ '' ''
                                   @ colorize (a_debug_image args) BRIGHT_BLACK) s;
                          s = py_print Stdout (colorize (times ''='' 60) BLUE @ NL) s
                      in case get_existing_ephemeral_containers w pod_name namespace s of
                           (Inl e, s) \<Rightarrow> (Inl e, s)
                         | (Inr existing_containers, s) \<Rightarrow>
                            (let s = (if existing_containers \<noteq> []
                                      then py_print Stdout
                                             (colorize ''Creating new debug container...'' YELLOW)
                                             (py_print Stdout
                                                (''Found existing ephemeral containers: ''
                                                   @ colorize (join '', '' existing_containers)
                                                       BRIGHT_BLACK) s)
                                      else s)
                             in case launch_debug_container w pod_name namespace
                                       (a_debug_image args) (Some target_container)
                                       existing_containers (a_as_root args) s of
                                  (Inl e, s) \<Rightarrow> (Inl e, s)
                                | (Inr debug_container, s) \<Rightarrow>
                                   if \<not> truthy debug_container
                                   then (Inr (Inl 1),
                                         py_print Stderr ''Failed to launch debug container'' s)
                                   else (Inr (Inr (pod_name, namespace, the debug_container)),
                                         s))))))"

definition main_operation ::
  "world \<Rightarrow> args \<Rightarrow> string \<Rightarrow> string \<Rightarrow> string \<Rightarrow> st \<Rightarrow> (exn + int) \<times> st"
where
  "main_operation w args pod_name namespace debug_container s =
     (case (if truthy (a_backup args) then
              (case create_backup w pod_name namespace debug_container (the (a_backup args))
                      (a_compress args) s of
                 (Inl e, s) \<Rightarrow> (Inl e, s)
               | (Inr success, s) \<Rightarrow> (Inr (if success then 0 else 1), s))
            else exec_interactive w pod_name namespace debug_container (a_cmd args)
                   (a_cd_into args) s) of
        (Inr exit_code, s) \<Rightarrow>
          (case cleanup_debug_container w pod_name namespace debug_container s of
             (Inl e, s) \<Rightarrow> (Inl e, s)
           | (Inr _, s) \<Rightarrow> (Inr exit_code, s))
      | (Inl KeyboardInterrupt, s) \<Rightarrow>
          (let s = py_print Stdout (NL @ colorize ''Interrupted by user'' YELLOW) s
           in case cleanup_debug_container w pod_name namespace debug_container s of
                (Inl e, s) \<Rightarrow> (Inl e, s)
              | (Inr _, s) \<Rightarrow> (Inr 130, s))
      | (Inl (Exception e), s) \<Rightarrow>
          (let s = py_print Stderr (colorize (CROSS @ '' Error:'') RED @ '' '' @ e) s
           in case cleanup_debug_container w pod_name namespace debug_container s of
                (Inl e, s) \<Rightarrow> (Inl e, s)
              | (Inr _, s) \<Rightarrow> (Inr 1, s))
      | (Inl (BaseException e), s) \<Rightarrow>
          (case cleanup_debug_container w pod_name namespace debug_container s of
             (Inl e', s) \<Rightarrow> (Inl e', s)
           | (Inr _, s) \<Rightarrow> (Inl (BaseException e), s)))"

definition main :: "world \<Rightarrow> args \<Rightarrow> st \<Rightarrow> (exn + int) \<times> st" where
  "main w args s =
     (case main_provision w args s of
        (Inl e, s) \<Rightarrow> (Inl e, s)
      | (Inr (Inl code), s) \<Rightarrow> (Inr code, s)
      | (Inr (Inr (pod_name, namespace, debug_container)), s) \<Rightarrow>
          main_operation w args pod_name namespace debug_container s)"

section \<open>Example worlds\<close>

text \<open>
  Concrete inputs on which the theorems below are instantiated: a world that answers
  the k-th subprocess from a list (and with an empty success after it), decodes JSON by
  a table, and takes one second for every subprocess.
\<close>

definition world_of :: "outcome list \<Rightarrow> (string \<times> k8s_json) list \<Rightarrow> world" where
  "world_of rs js =
     \<lparr>respond = (\<lambda>k. if k < length rs then rs ! k else Returned (Completed 0 [] [])),
      duration = (\<lambda>k. 1),
      json_loads = (\<lambda>t. case map_of js t of Some j \<Rightarrow> Inr j | None \<Rightarrow> Inl ''Expecting value''),
      makedirs = (\<lambda>d. None),
      strftime_now = (\<lambda>t. ''2024-01-01_00-00-00'')\<rparr>"

definition st0 :: st where
  "st0 = \<lparr>now = 0, issued = 0, trace = [], out = [], DEBUG_MODE = False\<rparr>"

definition done_ok :: "string \<Rightarrow> outcome" where
  "done_ok stdout = Returned (Completed 0 stdout [])"

lemma strip_plain:
  "t \<noteq> [] \<Longrightarrow> \<not> isspace (hd t) \<Longrightarrow> \<not> isspace (last t) \<Longrightarrow> strip t = t"
proof -
  assume a: "t \<noteq> []" "\<not> isspace (hd t)" "\<not> isspace (last t)"
  then have "dropWhile isspace t = t"
    by (cases t) auto
  moreover from a have "dropWhile isspace (rev t) = rev t"
    by (cases "rev t") (auto simp: last_rev [symmetric] hd_rev)
  ultimately show ?thesis
    by (simp add: strip_def)
qed

section \<open>Pod Resolver: ownership\<close>

text \<open>
  The ownership rule in the words of the specification: a direct owner reference for a
  StatefulSet or a DaemonSet, a ReplicaSet whose name starts with the controller name and
  a dash for a Deployment.
\<close>

definition direct_rule :: "string \<Rightarrow> string \<Rightarrow> pod_data \<Rightarrow> bool" where
  "direct_rule kind controller_name pod =
     list_ex (\<lambda>ref. ref_kind ref = Some kind \<and> ref_name ref = Some controller_name)
       (ownerReferences pod)"

definition replicaset_rule :: "string \<Rightarrow> pod_data \<Rightarrow> bool" where
  "replicaset_rule controller_name pod =
     list_ex (\<lambda>ref. ref_kind ref = Some ''ReplicaSet''
                \<and> (case ref_name ref of None \<Rightarrow> False
                    | Some n \<Rightarrow> prefix (controller_name @ ''-'') n))
       (ownerReferences pod)"

definition spec_ownership :: "string \<Rightarrow> string \<Rightarrow> pod_data \<Rightarrow> bool" where
  "spec_ownership kind controller_name pod =
     (if kind = ''Deployment'' then replicaset_rule controller_name pod
      else direct_rule kind controller_name pod)"

text \<open>The rule the code follows: the direct match counts for a Deployment as well.\<close>

definition code_ownership :: "string \<Rightarrow> string \<Rightarrow> pod_data \<Rightarrow> bool" where
  "code_ownership kind controller_name pod =
     (if kind = ''Deployment''
      then direct_rule kind controller_name pod \<or> replicaset_rule controller_name pod
      else direct_rule kind controller_name pod)"

definition pod_ref_of :: "string \<Rightarrow> pod_data \<Rightarrow> pod_ref" where
  "pod_ref_of namespace pod =
     \<lparr>p_name = get_default (metadata_name pod) [], p_namespace = namespace\<rparr>"

definition ex_pods :: "pod_data list" where
  "ex_pods =
     [empty_pod\<lparr>metadata_name := Some ''web-0'',
        ownerReferences := [\<lparr>ref_kind = Some ''Deployment'', ref_name = Some ''web''\<rparr>]\<rparr>,
      empty_pod\<lparr>metadata_name := Some ''web-5d9c-x'',
        ownerReferences := [\<lparr>ref_kind = Some ''ReplicaSet'', ref_name = Some ''web-5d9c''\<rparr>]\<rparr>,
      empty_pod\<lparr>metadata_name := Some ''webshop-77-y'',
        ownerReferences := [\<lparr>ref_kind = Some ''ReplicaSet'', ref_name = Some ''webshop-77''\<rparr>]\<rparr>,
      empty_pod\<lparr>metadata_name := Some ''db-0'',
        ownerReferences := [\<lparr>ref_kind = Some ''StatefulSet'', ref_name = Some ''db''\<rparr>]\<rparr>]"

definition ex_world_pods :: world where
  "ex_world_pods = world_of [done_ok ''PODS''] [(''PODS'', JPodList ex_pods)]"

lemma direct_owner_list_ex:
  "direct_owner kind cname refs
     = list_ex (\<lambda>ref. ref_kind ref = Some kind \<and> ref_name ref = Some cname) refs"
  by (induction refs) auto

lemma replicaset_owner_list_ex:
  "replicaset_owner cname refs
     = list_ex (\<lambda>ref. ref_kind ref = Some ''ReplicaSet''
                  \<and> (case ref_name ref of None \<Rightarrow> False
                      | Some n \<Rightarrow> prefix (cname @ ''-'') n)) refs"
  by (induction refs) (auto simp: get_default_def split: option.splits)

lemma code_ownership_iff:
  "code_ownership kind cname pod \<longleftrightarrow>
     direct_owner kind cname (ownerReferences pod)
       \<or> (kind = ''Deployment'' \<and> replicaset_owner cname (ownerReferences pod))"
  by (simp add: code_ownership_def direct_rule_def replicaset_rule_def
      direct_owner_list_ex replicaset_owner_list_ex)

lemma matching_pods_filter:
  "matching_pods kind cname ns pods
     = map (pod_ref_of ns) (filter (code_ownership kind cname) pods)"
  by (induction pods) (auto simp: Let_def code_ownership_iff pod_ref_of_def)

lemma strip_PODS: "strip ''PODS'' = ''PODS''"
  by (simp add: strip_plain isspace_def)

lemma lower_deploy: "lower ''deploy'' = ''deploy''"
  by (simp add: lower_def lower_char_def get_default_def)

text \<open>
  C2, as amended. For every alias of a controller kind (Deployment, StatefulSet,
  DaemonSet) and every decoded pod list, \<open>get_pods_by_controller\<close> returns, in listing
  order, exactly the pods that have an owner reference whose kind and name equal the
  controller's, and for a Deployment also the pods that have an owner reference of kind
  ReplicaSet whose name starts with the controller name followed by a dash.
\<close>

theorem get_pods_by_controller_ownership:
  assumes "map_of CONTROLLER_ALIASES (lower controller_type) = Some kind"
    and "respond w (issued s) = Returned (Completed rc stdout stderr)"
    and "strip stdout \<noteq> []"
    and "json_loads w (strip stdout) = Inr (JPodList pods)"
  shows "kind \<in> {''Deployment'', ''StatefulSet'', ''DaemonSet''}
     \<and> fst (get_pods_by_controller w controller_type controller_name namespace s)
         = Inr (map (pod_ref_of namespace)
                  (filter (\<lambda>pod. direct_rule kind controller_name pod
                             \<or> (kind = ''Deployment'' \<and> replicaset_rule controller_name pod))
                     pods))"
proof -
  from assms(1) have k: "kind \<in> {''Deployment'', ''StatefulSet'', ''DaemonSet''}"
    by (auto simp: CONTROLLER_ALIASES_def split: if_splits)
  have "(\<lambda>pod. direct_rule kind controller_name pod
             \<or> (kind = ''Deployment'' \<and> replicaset_rule controller_name pod))
        = code_ownership kind controller_name"
    by (rule ext) (auto simp: code_ownership_def)
  with assms k show ?thesis
    by (simp add: get_pods_by_controller_def run_command_def subprocess_run_def Let_def
        truthy_def items_def matching_pods_filter)
qed

theorem get_pods_by_controller_ownership_witness:
  "fst (get_pods_by_controller ex_world_pods ''deploy'' ''web'' ''prod'' st0)
     = Inr [\<lparr>p_name = ''web-0'', p_namespace = ''prod''\<rparr>,
            \<lparr>p_name = ''web-5d9c-x'', p_namespace = ''prod''\<rparr>]"
  using get_pods_by_controller_ownership
    [of "''deploy''" "''Deployment''" ex_world_pods st0 0 "''PODS''" "[]" ex_pods
        "''web''" "''prod''"]
  by (simp add: lower_deploy CONTROLLER_ALIASES_def ex_world_pods_def world_of_def done_ok_def
      st0_def strip_PODS pod_ref_of_def direct_rule_def replicaset_rule_def ex_pods_def
      empty_pod_def get_default_def)

text \<open>
  C2 as stated fails: for the Deployment \<open>web\<close>, the pod \<open>web-0\<close> has no ReplicaSet
  owner, so the stated rule does not select it, yet it is returned, because it names the
  Deployment itself as its owner.
\<close>

theorem get_pods_by_controller_counterexample:
  "fst (get_pods_by_controller ex_world_pods ''deploy'' ''web'' ''prod'' st0)
     \<noteq> Inr (map (pod_ref_of ''prod'') (filter (spec_ownership ''Deployment'' ''web'') ex_pods))"
  by (simp add: get_pods_by_controller_def run_command_def subprocess_run_def Let_def
      truthy_def items_def ex_world_pods_def world_of_def done_ok_def st0_def strip_PODS
      lower_deploy CONTROLLER_ALIASES_def print_debug_command_def ex_pods_def empty_pod_def
      get_default_def spec_ownership_def replicaset_rule_def pod_ref_of_def)

section \<open>Namespace resolution\<close>

definition valid_selection :: "args \<Rightarrow> bool" where
  "valid_selection args =
     ((truthy (a_pod args) \<or> truthy (a_controller args))
      \<and> (\<not> truthy (a_controller args) \<or> truthy (a_controller_name args)))"


definition ex_pod_before :: pod_data where
  "ex_pod_before = empty_pod\<lparr>metadata_name := Some ''web-0'', containers := [Some ''app'']\<rparr>"

definition ex_pod_after :: pod_data where
  "ex_pod_after = ex_pod_before\<lparr>ephemeralContainers := [Some ''debugger-x''],
     ephemeralContainerStatuses :=
       [\<lparr>cs_name = Some ''debugger-x'',
         cs_state = \<lparr>running = True, waiting = None, terminated = None\<rparr>\<rparr>]\<rparr>"

text \<open>
  A backup run with no \<^verbatim>\<open>--namespace\<close>: the context has no namespace, the pod
  \<open>web-0\<close> has the container \<open>app\<close>, the debug container \<open>debugger-x\<close> appears and
  runs at the first poll, and \<^verbatim>\<open>ls -d\<close> in it prints nothing.
\<close>

definition ex_world_backup :: world where
  "ex_world_backup =
     world_of [done_ok [], done_ok ''POD'', done_ok ''POD'', done_ok [], done_ok ''POD2'', done_ok ''POD2'', done_ok [], done_ok [], done_ok []]
       [(''POD'', JPod ex_pod_before), (''POD2'', JPod ex_pod_after)]"

definition ex_args_backup :: args where
  "ex_args_backup =
     \<lparr>a_pod = Some ''web-0'', a_controller = None, a_controller_name = None,
      a_namespace = None, a_container = Some ''app'', a_debug_image = ''toolbox'',
      a_cmd = ''bash'', a_cd_into = None, a_backup = Some ''/var/configs'',
      a_compress = False, a_as_root = False, a_debug = False\<rparr>"

lemma matching_pods_namespace:
  "pod \<in> set (matching_pods kind cname ns pods) \<Longrightarrow> p_namespace pod = ns"
  by (auto simp: matching_pods_filter pod_ref_of_def)

lemma get_pods_by_controller_namespace:
  assumes "get_pods_by_controller w ct cn ns s = (Inr pods, s')" and "pod \<in> set pods"
  shows "p_namespace pod = ns"
  using assms
  by (auto simp: get_pods_by_controller_def Let_def matching_pods_namespace
      split: option.splits prod.splits sum.splits if_splits)

lemma get_pod_by_name_namespace:
  assumes "get_pod_by_name w pn ns s = (Inr (Some pod), s')"
  shows "p_namespace pod = ns"
  using assms
  by (auto simp: get_pod_by_name_def Let_def split: prod.splits sum.splits if_splits)

lemma select_pod_explicit:
  assumes "truthy (a_namespace args)"
    and "select_pod w args s = (Inr (Some pod), s')"
  shows "p_namespace pod = the (a_namespace args)"
proof (cases "truthy (a_pod args)")
  case True
  with assms show ?thesis
    by (auto simp: select_pod_def dest: get_pod_by_name_namespace)
next
  case False
  obtain r s1 where g: "get_pods_by_controller w (the (a_controller args))
      (the (a_controller_name args)) (the (a_namespace args)) s = (r, s1)"
    by (cases "get_pods_by_controller w (the (a_controller args))
      (the (a_controller_name args)) (the (a_namespace args)) s") auto
  from False assms g obtain pods where "r = Inr pods" "pods \<noteq> []" "pod = hd pods"
    by (auto simp: select_pod_def Let_def split: sum.splits if_splits)
  with g get_pods_by_controller_namespace [of w _ _ _ s pods s1 pod] show ?thesis
    by simp
qed

lemma get_current_namespace_default:
  assumes "respond w (issued s) = Returned (Completed rc stdout stderr)"
    and "strip stdout = []"
  obtains s1 where "get_current_namespace w s = (Inr ''default'', s1)"
    and "DEBUG_MODE s1 = DEBUG_MODE s"
  using assms
  by (simp add: get_current_namespace_def run_command_def subprocess_run_def truthy_def)

lemma select_pod_default:
  assumes "a_namespace args = None"
    and "get_current_namespace w s = (Inr ''default'', s1)"
  shows "select_pod w args s = select_pod w (args\<lparr>a_namespace := Some ''default''\<rparr>) s1"
  using assms by (simp add: select_pod_def truthy_def split: prod.split sum.split)

lemma main_provision_agree:
  assumes "a_pod a = a_pod b" and "a_controller a = a_controller b"
    and "a_controller_name a = a_controller_name b" and "a_container a = a_container b"
    and "a_debug_image a = a_debug_image b" and "a_as_root a = a_as_root b"
    and "select_pod w a (s\<lparr>DEBUG_MODE := a_debug a\<rparr>)
           = select_pod w b (s'\<lparr>DEBUG_MODE := a_debug b\<rparr>)"
    and "valid_selection b"
  shows "main_provision w a s = main_provision w b s'"
proof -
  from assms(8) have c: "(\<not> truthy (a_pod b) \<and> \<not> truthy (a_controller b)) = False"
    "(truthy (a_controller b) \<and> \<not> truthy (a_controller_name b)) = False"
    by (auto simp: valid_selection_def)
  show ?thesis
    unfolding main_provision_def Let_def assms(1-7) c if_False ..
qed

text \<open>
  C10. With no namespace argument and a selection that passes the argument checks, when
  the current-context query prints nothing (after stripping), \<open>get_current_namespace\<close>
  returns \<open>default\<close>, every pod \<open>select_pod\<close> returns carries that namespace, and the
  whole run is the run with \<^verbatim>\<open>--namespace default\<close> continued from the state
  the query leaves: pod resolution and every later operation use \<open>default\<close>.
\<close>

theorem default_namespace:
  assumes "a_namespace args = None"
    and "valid_selection args"
    and "respond w (issued s) = Returned (Completed rc stdout stderr)"
    and "strip stdout = []"
  shows "fst (get_current_namespace w (s\<lparr>DEBUG_MODE := a_debug args\<rparr>)) = Inr ''default''
    \<and> main w args s
        = main w (args\<lparr>a_namespace := Some ''default''\<rparr>)
            (snd (get_current_namespace w (s\<lparr>DEBUG_MODE := a_debug args\<rparr>)))
    \<and> (\<forall>pod s'. select_pod w args s = (Inr (Some pod), s') \<longrightarrow> p_namespace pod = ''default'')"
proof -
  let ?s0 = "s\<lparr>DEBUG_MODE := a_debug args\<rparr>"
  let ?args = "args\<lparr>a_namespace := Some ''default''\<rparr>"
  from assms(3) have r0: "respond w (issued ?s0) = Returned (Completed rc stdout stderr)"
    by simp
  from r0 assms(4) obtain s1 where g0: "get_current_namespace w ?s0 = (Inr ''default'', s1)"
    and d1: "DEBUG_MODE s1 = a_debug args"
    by (rule get_current_namespace_default) simp
  from assms(3,4) obtain s2 where g: "get_current_namespace w s = (Inr ''default'', s2)"
    by (rule get_current_namespace_default)
  from d1 have same: "s1\<lparr>DEBUG_MODE := a_debug args\<rparr> = s1"
    by (cases s1) simp
  from assms(2) have v1: "\<not> (\<not> truthy (a_pod args) \<and> \<not> truthy (a_controller args))"
    and v2: "\<not> (truthy (a_controller args) \<and> \<not> truthy (a_controller_name args))"
    by (auto simp: valid_selection_def)
  have prov: "main_provision w args s = main_provision w ?args s1"
  proof (rule main_provision_agree)
    show "select_pod w args (s\<lparr>DEBUG_MODE := a_debug args\<rparr>)
       = select_pod w ?args (s1\<lparr>DEBUG_MODE := a_debug ?args\<rparr>)"
      using select_pod_default [OF assms(1) g0] same by simp
    show "valid_selection ?args"
      using assms(2) by (simp add: valid_selection_def)
  qed simp_all
  have op: "\<And>p n d s. main_operation w args p n d s = main_operation w ?args p n d s"
    by (simp add: main_operation_def)
  have m: "main w args s = main w ?args s1"
    unfolding main_def prov op ..
  have "\<forall>pod s'. select_pod w args s = (Inr (Some pod), s') \<longrightarrow> p_namespace pod = ''default''"
    using select_pod_default [OF assms(1) g] select_pod_explicit [of ?args w s2]
    by (simp add: truthy_def)
  with m g0 show ?thesis by simp
qed


theorem default_namespace_witness:
  "a_namespace ex_args_backup = None \<and> valid_selection ex_args_backup
   \<and> respond ex_world_backup (issued st0) = Returned (Completed 0 [] []) \<and> strip [] = []
   \<and> main ex_world_backup ex_args_backup st0
       = main ex_world_backup (ex_args_backup\<lparr>a_namespace := Some ''default''\<rparr>)
           (st0\<lparr>now := 1, issued := 1, trace := [Shell namespace_cmd]\<rparr>)"
  using default_namespace [of ex_args_backup ex_world_backup st0 0 "[]" "[]"]
  by (simp add: ex_args_backup_def ex_world_backup_def world_of_def done_ok_def st0_def
      valid_selection_def truthy_def strip_def get_current_namespace_def run_command_def
      subprocess_run_def print_debug_command_def)

section \<open>The polling loop\<close>

definition quiet_status :: "string \<Rightarrow> container_status \<Rightarrow> bool" where
  "quiet_status container_name status =
     (cs_name status \<noteq> Some container_name
      \<or> (\<not> running (cs_state status)
          \<and> (case waiting (cs_state status) of
                None \<Rightarrow> True
              | Some waiting_info \<Rightarrow>
                  get_default (w_reason waiting_info) ''Unknown'' \<notin> set failure_states)
          \<and> terminated (cs_state status) = None))"

definition quiet_poll :: "world \<Rightarrow> string \<Rightarrow> nat \<Rightarrow> bool" where
  "quiet_poll w container_name k =
     (case respond w k of
        Raised e \<Rightarrow> False
      | Returned (Completed returncode stdout stderr) \<Rightarrow>
          returncode \<noteq> 0 \<or> strip stdout = []
          \<or> (case json_loads w (strip stdout) of
                Inl e \<Rightarrow> True
              | Inr pod_data \<Rightarrow>
                  list_all (quiet_status container_name)
                    (ephemeralContainerStatuses (as_pod pod_data))))"

definition timeout_msg :: "int \<Rightarrow> string" where
  "timeout_msg timeout =
     colorize CROSS RED @ '' Timeout ('' @ str_int timeout @ ''s) waiting for container to start''"

lemma check_status_quiet:
  "quiet_status c status \<Longrightarrow> fst (check_status c status l s) = None"
  by (auto simp: quiet_status_def check_status_def Let_def split: option.splits)

lemma check_statuses_quiet:
  "list_all (quiet_status c) sts \<Longrightarrow> fst (check_statuses c sts l s) = None"
proof (induction sts arbitrary: l s)
  case Nil
  show ?case by simp
next
  case (Cons status sts)
  obtain r l' s' where cs: "check_status c status l s = (r, l', s')"
    by (cases "check_status c status l s") auto
  from Cons.prems have "fst (check_status c status l s) = None"
    by (simp add: check_status_quiet)
  with cs have "r = None" by simp
  with cs Cons show ?case by simp
qed

definition after_cmd :: "world \<Rightarrow> string \<Rightarrow> bool \<Rightarrow> st \<Rightarrow> st" where
  "after_cmd w cmd use_bash s =
     snd (subprocess_run w (if use_bash then Argv [''bash'', ''-c'', cmd] else Shell cmd)
            (print_debug_command cmd s))"

lemma after_cmd_fields [simp]:
  "now (after_cmd w cmd b s) = now s + int (duration w (issued s))"
  "issued (after_cmd w cmd b s) = Suc (issued s)"
  "trace (after_cmd w cmd b s)
     = trace s @ [if b then Argv [''bash'', ''-c'', cmd] else Shell cmd]"
  "DEBUG_MODE (after_cmd w cmd b s) = DEBUG_MODE s"
  by (simp_all add: after_cmd_def subprocess_run_def)

lemma run_command_raised:
  "respond w (issued s) = Raised e \<Longrightarrow>
   run_command w cmd check b s = (Inl e, after_cmd w cmd b s)"
  by (simp add: run_command_def subprocess_run_def after_cmd_def)

lemma run_command_unchecked:
  "respond w (issued s) = Returned (Completed rc stdout stderr) \<Longrightarrow>
   run_command w cmd False b s = (Inr (Some (strip stdout)), after_cmd w cmd b s)"
  by (simp add: run_command_def subprocess_run_def after_cmd_def)

lemma run_command_checked_ok:
  "respond w (issued s) = Returned (Completed 0 stdout stderr) \<Longrightarrow>
   run_command w cmd True b s = (Inr (Some (strip stdout)), after_cmd w cmd b s)"
  by (simp add: run_command_def subprocess_run_def after_cmd_def)

lemma run_command_checked_failed:
  "respond w (issued s) = Returned (Completed rc stdout stderr) \<Longrightarrow> rc \<noteq> 0 \<Longrightarrow>
   run_command w cmd True b s
     = (Inr None,
        py_print Stderr (''Error: '' @ stderr)
          (py_print Stderr (''Error running command: '' @ cmd) (after_cmd w cmd b s)))"
  by (simp add: run_command_def subprocess_run_def after_cmd_def)

lemma poll_once_raised:
  "respond w (issued s) = Raised e \<Longrightarrow>
   poll_once w p n c l s = (Inl e, after_cmd w (get_pod_cmd p n) False s)"
  by (simp add: poll_once_def run_command_raised)

lemma poll_once_failed:
  "respond w (issued s) = Returned (Completed rc stdout stderr) \<Longrightarrow> rc \<noteq> 0 \<Longrightarrow>
   poll_once w p n c l s
     = (Inr (None, l),
        sleep 2 (py_print Stderr (''Error: '' @ stderr)
          (py_print Stderr (''Error running command: '' @ get_pod_cmd p n)
             (after_cmd w (get_pod_cmd p n) False s))))"
  by (simp add: poll_once_def run_command_checked_failed truthy_def)

lemma poll_once_empty:
  "respond w (issued s) = Returned (Completed 0 stdout stderr) \<Longrightarrow> strip stdout = [] \<Longrightarrow>
   poll_once w p n c l s = (Inr (None, l), sleep 2 (after_cmd w (get_pod_cmd p n) False s))"
  by (simp add: poll_once_def run_command_checked_ok truthy_def)

lemma poll_once_malformed:
  "respond w (issued s) = Returned (Completed 0 stdout stderr) \<Longrightarrow> strip stdout \<noteq> [] \<Longrightarrow>
   json_loads w (strip stdout) = Inl e \<Longrightarrow>
   poll_once w p n c l s
     = (Inr (None, l),
        sleep 2 (py_print Stderr (''Warning: Failed to parse pod JSON: '' @ e)
                   (after_cmd w (get_pod_cmd p n) False s)))"
  by (simp add: poll_once_def run_command_checked_ok truthy_def)

lemma poll_once_parsed:
  "respond w (issued s) = Returned (Completed 0 stdout stderr) \<Longrightarrow> strip stdout \<noteq> [] \<Longrightarrow>
   json_loads w (strip stdout) = Inr pod_data \<Longrightarrow>
   poll_once w p n c l s
     = (case check_statuses c (ephemeralContainerStatuses (as_pod pod_data)) l
               (after_cmd w (get_pod_cmd p n) False s) of
          (Some b, l', s') \<Rightarrow> (Inr (Some b, l'), s')
        | (None, l', s') \<Rightarrow> (Inr (None, l'), sleep 2 s'))"
  by (simp add: poll_once_def run_command_checked_ok truthy_def)

lemma poll_once_quiet:
  assumes "quiet_poll w c (issued s)"
  obtains l' s' where "poll_once w p n c l s = (Inr (None, l'), s')"
proof (cases "respond w (issued s)")
  case (Raised e)
  with assms show ?thesis by (simp add: quiet_poll_def)
next
  case (Returned cp)
  obtain rc stdout stderr where cp: "cp = Completed rc stdout stderr" by (cases cp)
  note r = Returned [unfolded cp]
  show ?thesis
  proof (cases "rc = 0")
    case False
    from poll_once_failed [OF r False] that show ?thesis by blast
  next
    case rc0: True
    show ?thesis
    proof (cases "strip stdout = []")
      case True
      from poll_once_empty [OF r [unfolded rc0] True] that show ?thesis by blast
    next
      case False
      show ?thesis
      proof (cases "json_loads w (strip stdout)")
        case (Inl e)
        from poll_once_malformed [OF r [unfolded rc0] False Inl] that show ?thesis by blast
      next
        case (Inr pod_data)
        let ?cs = "check_statuses c (ephemeralContainerStatuses (as_pod pod_data)) l
                     (after_cmd w (get_pod_cmd p n) False s)"
        from assms r rc0 False Inr
        have "list_all (quiet_status c) (ephemeralContainerStatuses (as_pod pod_data))"
          by (simp add: quiet_poll_def)
        then have "fst ?cs = None" by (rule check_statuses_quiet)
        then obtain l' s' where "?cs = (None, l', s')" by (cases ?cs) auto
        with poll_once_parsed [OF r [unfolded rc0] False Inr, of p n c l] that
        show ?thesis by simp
      qed
    qed
  qed
qed

lemma poll_once_issued:
  assumes "poll_once w p n c l s = (r, s')"
  shows "issued s' = Suc (issued s)"
proof (cases "respond w (issued s)")
  case (Raised e)
  from poll_once_raised [OF this, of p n c l] assms show ?thesis by auto
next
  case (Returned cp)
  obtain rc stdout stderr where cp: "cp = Completed rc stdout stderr" by (cases cp)
  note r = Returned [unfolded cp]
  show ?thesis
  proof (cases "rc = 0")
    case False
    from poll_once_failed [OF r False, of p n c l] assms show ?thesis by auto
  next
    case rc0: True
    show ?thesis
    proof (cases "strip stdout = []")
      case True
      from poll_once_empty [OF r [unfolded rc0] True, of p n c l] assms show ?thesis by auto
    next
      case False
      show ?thesis
      proof (cases "json_loads w (strip stdout)")
        case (Inl e)
        from poll_once_malformed [OF r [unfolded rc0] False Inl, of p n c l] assms
        show ?thesis by auto
      next
        case (Inr pod_data)
        let ?cs = "check_statuses c (ephemeralContainerStatuses (as_pod pod_data)) l
                     (after_cmd w (get_pod_cmd p n) False s)"
        obtain b l' s2 where cs: "?cs = (b, l', s2)" by (cases ?cs) auto
        have "issued s2 = Suc (issued s)"
          using check_statuses_fields [of c "ephemeralContainerStatuses (as_pod pod_data)" l
              "after_cmd w (get_pod_cmd p n) False s"]
          by (simp add: cs)
        with poll_once_parsed [OF r [unfolded rc0] False Inr, of p n c l] assms cs
        show ?thesis by (cases b) auto
      qed
    qed
  qed
qed

fun iterations ::
  "world \<Rightarrow> string \<Rightarrow> string \<Rightarrow> string \<Rightarrow> int \<Rightarrow> int \<Rightarrow> nat \<Rightarrow> string option \<Rightarrow> st
     \<Rightarrow> (string option \<times> st) option"
where
  "iterations w pod_name namespace container_name timeout start_time 0 last_reason s
     = Some (last_reason, s)"
| "iterations w pod_name namespace container_name timeout start_time (Suc k) last_reason s
     = (if now s - start_time < timeout then
          (case poll_once w pod_name namespace container_name last_reason s of
             (Inr (None, last_reason'), s') \<Rightarrow>
               iterations w pod_name namespace container_name timeout start_time k
                 last_reason' s'
           | _ \<Rightarrow> None)
        else None)"

lemma iterations_wait_loop:
  "iterations w p n c timeout start k l0 s0 = Some (l, s) \<Longrightarrow>
   wait_loop w p n c timeout start l0 s0 = wait_loop w p n c timeout start l s"
proof (induction k arbitrary: l0 s0)
  case 0
  then show ?case by simp
next
  case (Suc k)
  from Suc.prems have el: "now s0 - start < timeout"
    by (simp split: if_splits)
  from Suc.prems el obtain l1 s1
    where po: "poll_once w p n c l0 s0 = (Inr (None, l1), s1)"
      and it: "iterations w p n c timeout start k l1 s1 = Some (l, s)"
    by (auto split: prod.splits sum.splits option.splits)
  from el po have "wait_loop w p n c timeout start l0 s0
      = wait_loop w p n c timeout start l1 s1"
    by (simp add: wait_loop.simps [of w p n c timeout start l0 s0])
  with Suc.IH [OF it] show ?case by simp
qed

lemma wait_loop_exit_elapsed:
  "wait_loop w p n c timeout start l s = (Inr (None, l'), s') \<Longrightarrow> timeout \<le> now s' - start"
proof (induction w p n c timeout start l s rule: wait_loop.induct)
  case (1 w p n c timeout start l s)
  show ?case
  proof (cases "now s - start < timeout")
    case False
    with "1.prems" show ?thesis
      by (simp add: wait_loop.simps [of w p n c timeout start l s])
  next
    case True
    obtain r s1 where po: "poll_once w p n c l s = (r, s1)"
      by (cases "poll_once w p n c l s") auto
    show ?thesis
    proof (cases r)
      case (Inl e)
      with True po "1.prems" show ?thesis
        by (simp add: wait_loop.simps [of w p n c timeout start l s])
    next
      case (Inr v)
      obtain b l1 where v: "v = (b, l1)" by (cases v)
      show ?thesis
      proof (cases b)
        case (Some x)
        with True po Inr v "1.prems" show ?thesis
          by (simp add: wait_loop.simps [of w p n c timeout start l s])
      next
        case None
        with True po Inr v "1.prems"
        have "wait_loop w p n c timeout start l1 s1 = (Inr (None, l'), s')"
          by (simp add: wait_loop.simps [of w p n c timeout start l s])
        with "1.IH" [OF True po [symmetric] Inr v [symmetric] None] 
        show ?thesis by simp
      qed
    qed
  qed
qed

lemma wait_loop_quiet:
  "\<forall>k\<ge>issued s. quiet_poll w c k \<Longrightarrow>
   \<exists>l' s'. wait_loop w p n c timeout start l s = (Inr (None, l'), s')"
proof (induction w p n c timeout start l s rule: wait_loop.induct)
  case (1 w p n c timeout start l s)
  show ?case
  proof (cases "now s - start < timeout")
    case False
    then show ?thesis
      by (simp add: wait_loop.simps [of w p n c timeout start l s])
  next
    case True
    from "1.prems" have "quiet_poll w c (issued s)" by simp
    then obtain l1 s1 where po: "poll_once w p n c l s = (Inr (None, l1), s1)"
      by (rule poll_once_quiet)
    from poll_once_issued [OF po] "1.prems" have "\<forall>k\<ge>issued s1. quiet_poll w c k"
      by simp
    from "1.IH" [OF True po [symmetric] refl refl refl this]
    obtain l' s' where "wait_loop w p n c timeout start l1 s1 = (Inr (None, l'), s')"
      by blast
    with True po show ?thesis
      by (simp add: wait_loop.simps [of w p n c timeout start l s])
  qed
qed

definition ex_status :: "string \<Rightarrow> string option \<Rightarrow> container_status" where
  "ex_status reason message =
     \<lparr>cs_name = Some ''debugger-x'',
      cs_state = \<lparr>running = False,
                  waiting = Some \<lparr>w_reason = Some reason, w_message = message\<rparr>,
                  terminated = None\<rparr>\<rparr>"

definition ex_pod_creating :: pod_data where
  "ex_pod_creating =
     empty_pod\<lparr>metadata_name := Some ''web-0'',
       ephemeralContainerStatuses := [ex_status ''ContainerCreating'' None]\<rparr>"

definition ex_pod_backoff :: pod_data where
  "ex_pod_backoff =
     empty_pod\<lparr>metadata_name := Some ''web-0'',
       ephemeralContainerStatuses :=
         [ex_status ''ImagePullBackOff'' (Some ''pull access denied'')]\<rparr>"

definition ex_world_backoff :: world where
  "ex_world_backoff =
     world_of [done_ok ''CREATING'', done_ok ''BACKOFF'']
       [(''CREATING'', JPod ex_pod_creating), (''BACKOFF'', JPod ex_pod_backoff)]"

definition ex_world_creating :: world where
  "ex_world_creating =
     (world_of [] [(''CREATING'', JPod ex_pod_creating)])\<lparr>respond := (\<lambda>k. done_ok ''CREATING'')\<rparr>"

definition ex_world_malformed :: world where
  "ex_world_malformed = world_of [done_ok ''<html>'', done_ok ''BACKOFF''] [(''BACKOFF'', JPod ex_pod_backoff)]"


lemmas ex_poll_defs = ex_world_backoff_def ex_world_creating_def ex_world_malformed_def
  world_of_def done_ok_def st0_def ex_pod_creating_def ex_pod_backoff_def ex_status_def empty_pod_def

lemma strip_examples:
  "strip ''CREATING'' = ''CREATING''" "strip ''BACKOFF'' = ''BACKOFF''"
  "strip ''<html>'' = ''<html>''"
  by (simp_all add: strip_plain isspace_def)



lemma check_statuses_terminal_waiting:
  assumes "\<forall>st\<in>set before. cs_name st = Some c \<longrightarrow> \<not> running (cs_state st)"
    and "cs_name status = Some c" and "\<not> running (cs_state status)"
    and "waiting (cs_state status) = Some wi" and "w_reason wi = Some reason"
    and "reason \<in> set failure_states"
  shows "fst (check_statuses c (before @ status # after) l s) = Some False"
  using assms(1)
proof (induction before arbitrary: l s)
  case Nil
  from assms(2-6) have "fst (check_status c status l s) = Some False"
    by (simp add: check_status_def get_default_def Let_def)
  then show ?case
    by (cases "check_status c status l s") auto
next
  case (Cons st before)
  obtain r l1 s1 where cs: "check_status c st l s = (r, l1, s1)"
    by (cases "check_status c st l s") auto
  show ?case
  proof (cases r)
    case None
    with cs Cons.IH [of l1 s1] Cons.prems show ?thesis by simp
  next
    case (Some b)
    from Cons.prems have "cs_name st = Some c \<longrightarrow> \<not> running (cs_state st)" by simp
    with cs Some have "b = False"
      by (auto simp: check_status_def Let_def split: if_splits option.splits)
    with cs Some show ?thesis by simp
  qed
qed


text \<open>
  C3. Take any run of the polling loop of \<open>wait_for_container_running\<close> that has
  reached, after \<open>k\<close> iterations that all continued (\<open>iterations\<close>), an iteration in
  state \<open>s\<close> with the loop condition true. If the pod fetched
  in this iteration holds a status entry of the watched container that is not running and
  is waiting with a reason in the fixed failure set (and no earlier entry of that
  container is running), then \<open>wait_for_container_running\<close> returns \<open>False\<close> in this
  iteration: the command of this iteration is the last one issued, and the clock has
  advanced by the duration of that command only, with no further sleep.
\<close>

theorem terminal_waiting_fails_at_once:
  assumes "iterations w pod_name namespace container_name timeout (now s0) k None
             (py_print Stdout
                (''Waiting for container '' @ colorize container_name CYAN
                   @ '' to be running...'') s0)
           = Some (last_reason, s)"
    and "now s - now s0 < timeout"
    and "respond w (issued s) = Returned (Completed 0 stdout stderr)"
    and "strip stdout \<noteq> []"
    and "json_loads w (strip stdout) = Inr pod_data"
    and "ephemeralContainerStatuses (as_pod pod_data) = before @ status # after"
    and "\<forall>st\<in>set before. cs_name st = Some container_name \<longrightarrow> \<not> running (cs_state st)"
    and "cs_name status = Some container_name"
    and "\<not> running (cs_state status)"
    and "waiting (cs_state status) = Some waiting_info"
    and "w_reason waiting_info = Some reason"
    and "reason \<in> {''ImagePullBackOff'', ''ErrImagePull'', ''CrashLoopBackOff'',
                   ''CreateContainerError'', ''InvalidImageName'',
                   ''CreateContainerConfigError''}"
  shows "\<exists>s'. wait_for_container_running w pod_name namespace container_name timeout s0
                = (Inr False, s')
           \<and> issued s' = Suc (issued s)
           \<and> now s' = now s + int (duration w (issued s))"
proof -
  let ?s1 = "after_cmd w (get_pod_cmd pod_name namespace) False s"
  let ?cs = "check_statuses container_name (before @ status # after) last_reason ?s1"
  from assms(12) have "reason \<in> set failure_states"
    by (simp add: failure_states_def)
  with assms(7-11) have "fst ?cs = Some False"
    by (intro check_statuses_terminal_waiting)
  then obtain l' s' where cs: "?cs = (Some False, l', s')"
    by (cases ?cs) auto
  have fr: "issued s' = Suc (issued s)" "now s' = now s + int (duration w (issued s))"
    using check_statuses_fields [of container_name "before @ status # after" last_reason ?s1]
    by (simp_all add: cs)
  have "poll_once w pod_name namespace container_name last_reason s
      = (Inr (Some False, l'), s')"
    using poll_once_parsed [OF assms(3,4,5), of pod_name namespace container_name last_reason]
    by (simp add: assms(6) cs)
  with assms(2)
  have "wait_loop w pod_name namespace container_name timeout (now s0) last_reason s
      = (Inr (Some False, l'), s')"
    by (simp add: wait_loop.simps
        [of w pod_name namespace container_name timeout "now s0" last_reason s])
  with iterations_wait_loop [OF assms(1)]
  have "wait_for_container_running w pod_name namespace container_name timeout s0
      = (Inr False, s')"
    by (simp add: wait_for_container_running_def Let_def)
  with fr show ?thesis by blast
qed


theorem terminal_waiting_fails_at_once_witness:
  "\<exists>s'. wait_for_container_running ex_world_backoff ''web-0'' ''prod'' ''debugger-x'' 60 st0
           = (Inr False, s')
      \<and> issued s' = 2 \<and> now s' = 4"
proof -
  define s0 where "s0 = py_print Stdout
      (''Waiting for container '' @ colorize ''debugger-x'' CYAN @ '' to be running...'') st0"
  define s1 where
    "s1 = snd (poll_once ex_world_backoff ''web-0'' ''prod'' ''debugger-x'' None s0)"
  have "fst (poll_once ex_world_backoff ''web-0'' ''prod'' ''debugger-x'' None s0)
      = Inr (None, Some ''ContainerCreating'')"
    by (simp add: poll_once_def run_command_def subprocess_run_def print_debug_command_def
        truthy_def strip_examples ex_poll_defs as_pod_def check_status_def get_default_def
        Let_def failure_states_def s0_def)
  then have po: "poll_once ex_world_backoff ''web-0'' ''prod'' ''debugger-x'' None s0
      = (Inr (None, Some ''ContainerCreating''), s1)"
    unfolding s1_def
    by (cases "poll_once ex_world_backoff ''web-0'' ''prod'' ''debugger-x'' None s0") simp
  have s0: "now s0 = 0" "issued s0 = 0"
    by (simp_all add: s0_def st0_def)
  have reach: "iterations ex_world_backoff ''web-0'' ''prod'' ''debugger-x'' 60 (now st0)
      (Suc 0) None s0 = Some (Some ''ContainerCreating'', s1)"
    by (simp add: po s0 st0_def)
  have i1: "issued s1 = 1"
    using poll_once_issued [OF po] by (simp add: s0)
  have d: "duration ex_world_backoff 0 = 1" "duration ex_world_backoff (Suc 0) = 1"
    by (simp_all add: ex_world_backoff_def world_of_def)
  then have n1: "now s1 = 3"
    using poll_once_continue [OF po] by (simp add: s0)
  from n1 have el: "now s1 - now st0 < 60"
    by (simp add: st0_def)
  have r1: "respond ex_world_backoff (issued s1) = Returned (Completed 0 ''BACKOFF'' [])"
    unfolding i1 by (simp add: ex_world_backoff_def world_of_def done_ok_def)
  have j1: "json_loads ex_world_backoff (strip ''BACKOFF'') = Inr (JPod ex_pod_backoff)"
    by (simp add: strip_examples ex_world_backoff_def world_of_def)
  have st: "ephemeralContainerStatuses (as_pod (JPod ex_pod_backoff))
      = [] @ ex_status ''ImagePullBackOff'' (Some ''pull access denied'') # []"
    by (simp add: as_pod_def ex_pod_backoff_def)
  have "\<exists>s'. wait_for_container_running ex_world_backoff ''web-0'' ''prod'' ''debugger-x'' 60 st0
           = (Inr False, s')
      \<and> issued s' = Suc (issued s1)
      \<and> now s' = now s1 + int (duration ex_world_backoff (issued s1))"
    by (rule terminal_waiting_fails_at_once [OF reach [unfolded s0_def] el r1 _ j1 st,
          where waiting_info = "\<lparr>w_reason = Some ''ImagePullBackOff'',
                                   w_message = Some ''pull access denied''\<rparr>"
            and reason = "''ImagePullBackOff''"])
      (simp_all add: strip_examples ex_status_def)
  then show ?thesis
    by (simp add: i1 n1 d numeral_2_eq_2)
qed


text \<open>
  C8. If no poll ever observes the watched container running, waiting with a reason of
  the failure set, or terminated (a poll that fails, prints nothing or does not parse
  observes nothing), then \<open>wait_for_container_running\<close> returns \<open>False\<close> with the
  timeout message printed and at least \<open>timeout\<close> seconds elapsed. Moreover the loop
  is only ever left through its condition, the way that leads to the timeout message,
  when the elapsed time has reached \<open>timeout\<close>.
\<close>

theorem timeout_only_after_duration:
  assumes "\<forall>k\<ge>issued s. quiet_poll w container_name k"
  shows "(\<exists>s'. wait_for_container_running w pod_name namespace container_name timeout s
                 = (Inr False, s')
            \<and> timeout \<le> now s' - now s
            \<and> (Stderr, timeout_msg timeout) \<in> set (out s'))
         \<and> (\<forall>start_time last_reason s1 last_reason' s'.
               wait_loop w pod_name namespace container_name timeout start_time last_reason s1
                 = (Inr (None, last_reason'), s')
               \<longrightarrow> timeout \<le> now s' - start_time)"
proof -
  let ?s0 = "py_print Stdout
      (''Waiting for container '' @ colorize container_name CYAN @ '' to be running...'') s"
  from assms have "\<forall>k\<ge>issued ?s0. quiet_poll w container_name k" by simp
  from wait_loop_quiet [OF this] obtain l' s'
    where wl: "wait_loop w pod_name namespace container_name timeout (now ?s0) None ?s0
      = (Inr (None, l'), s')"
    by blast
  from wait_loop_exit_elapsed [OF wl] have el: "timeout \<le> now s' - now s" by simp
  from wl have "\<exists>s''. wait_for_container_running w pod_name namespace container_name timeout s
      = (Inr False, s'') \<and> now s'' = now s' \<and> (Stderr, timeout_msg timeout) \<in> set (out s'')"
    by (simp add: wait_for_container_running_def Let_def timeout_msg_def)
  with el wait_loop_exit_elapsed show ?thesis
    by auto
qed


theorem timeout_only_after_duration_witness:
  "fst (wait_for_container_running ex_world_creating ''web-0'' ''prod'' ''debugger-x'' 6 st0)
     = Inr False
   \<and> 6 \<le> now (snd (wait_for_container_running ex_world_creating ''web-0'' ''prod''
                      ''debugger-x'' 6 st0)) - now st0"
proof -
  have "\<forall>k\<ge>issued st0. quiet_poll ex_world_creating ''debugger-x'' k"
    by (simp add: quiet_poll_def quiet_status_def ex_poll_defs strip_examples as_pod_def
        get_default_def failure_states_def)
  from timeout_only_after_duration [OF this, of "''web-0''" "''prod''" 6]
  show ?thesis by auto
qed


text \<open>
  C9. In an iteration of the polling loop whose payload does not parse, the iteration
  prints the warning on standard error, sleeps two seconds and goes on: it returns
  nothing from the function, keeps \<open>last_reason\<close>, and the loop continues from the
  state it leaves as if it had started there.
\<close>

theorem malformed_payload_is_transient:
  assumes "now s - start_time < timeout"
    and "respond w (issued s) = Returned (Completed 0 stdout stderr)"
    and "strip stdout \<noteq> []"
    and "json_loads w (strip stdout) = Inl e"
  shows "let s' = sleep 2 (py_print Stderr (''Warning: Failed to parse pod JSON: '' @ e)
                             (after_cmd w (get_pod_cmd pod_name namespace) False s))
         in poll_once w pod_name namespace container_name last_reason s
              = (Inr (None, last_reason), s')
          \<and> wait_loop w pod_name namespace container_name timeout start_time last_reason s
              = wait_loop w pod_name namespace container_name timeout start_time last_reason s'
          \<and> issued s' = Suc (issued s)
          \<and> now s' = now s + int (duration w (issued s)) + 2
          \<and> last (out s') = (Stderr, ''Warning: Failed to parse pod JSON: '' @ e)"
  using assms(1) poll_once_malformed [OF assms(2,3,4), of pod_name namespace container_name last_reason]
  by (simp add: Let_def
      wait_loop.simps [of w pod_name namespace container_name timeout start_time last_reason s])

theorem malformed_payload_is_transient_witness:
  "poll_once ex_world_malformed ''web-0'' ''prod'' ''debugger-x'' None st0
     = (Inr (None, None),
        st0\<lparr>now := 3, issued := 1, trace := [Shell (get_pod_cmd ''web-0'' ''prod'')],
            out := [(Stderr, ''Warning: Failed to parse pod JSON: Expecting value'')]\<rparr>)
   \<and> wait_loop ex_world_malformed ''web-0'' ''prod'' ''debugger-x'' 60 0 None st0
     = wait_loop ex_world_malformed ''web-0'' ''prod'' ''debugger-x'' 60 0 None
        (st0\<lparr>now := 3, issued := 1, trace := [Shell (get_pod_cmd ''web-0'' ''prod'')],
            out := [(Stderr, ''Warning: Failed to parse pod JSON: Expecting value'')]\<rparr>)"
  using malformed_payload_is_transient [of st0 0 60 ex_world_malformed "''<html>''" "[]"
      "''Expecting value''" "''web-0''" "''prod''" "''debugger-x''" None]
  by (simp add: ex_poll_defs strip_examples Let_def after_cmd_def subprocess_run_def
      print_debug_command_def sleep_def py_print_def)

section \<open>Backup\<close>

lemma kill_cmd_neq:
  "kill_cmd p n c \<noteq> verify_cmd p n c path"
  "kill_cmd p n c \<noteq> parent_cmd p n c dir"
  "kill_cmd p n c \<noteq> archive_cmd p n c path"
  "kill_cmd p n c \<noteq> cleanup_cmd p n c"
  "kill_cmd p n c \<noteq> copy_archive_cmd p n c file"
  "kill_cmd p n c \<noteq> copy_direct_cmd p n c path file"
  by (simp_all add: kill_cmd_def verify_cmd_def parent_cmd_def archive_cmd_def cleanup_cmd_def
      copy_archive_cmd_def copy_direct_cmd_def SQ_def)

lemma strip_strip: "strip (strip x) = strip x"
proof -
  define y where "y = dropWhile isspace x"
  define z where "z = dropWhile isspace (rev y)"
  have sx: "strip x = rev z"
    by (simp add: strip_def y_def z_def)
  have dz: "dropWhile isspace z = z"
    by (simp add: z_def)
  have "dropWhile isspace (rev z) = rev z"
  proof (cases "z = []")
    case True
    then show ?thesis by simp
  next
    case False
    have "rev y = takeWhile isspace (rev y) @ z"
      by (simp add: z_def)
    then have "rev (rev y) = rev (takeWhile isspace (rev y) @ z)"
      by simp
    then have y: "y = rev z @ rev (takeWhile isspace (rev y))"
      by simp
    with False have "y \<noteq> []" and hd: "hd y = hd (rev z)"
      by (metis Nil_is_append_conv rev_is_Nil_conv, metis hd_append2 rev_is_Nil_conv)
    from \<open>y \<noteq> []\<close> have "\<not> isspace (hd y)"
      unfolding y_def by (rule hd_dropWhile)
    with hd False show ?thesis
      by (cases "rev z") auto
  qed
  then have "strip (rev z) = rev z"
    by (simp add: strip_def dz)
  with sx show ?thesis by simp
qed

lemma run_command_unchecked_eq:
  "run_command w cmd False b s =
     (case respond w (issued s) of
        Raised e \<Rightarrow> (Inl e, after_cmd w cmd b s)
      | Returned (Completed rc stdout stderr) \<Rightarrow> (Inr (Some (strip stdout)), after_cmd w cmd b s))"
  by (simp add: run_command_def subprocess_run_def after_cmd_def
      split: outcome.splits completed.splits)

lemma after_cmd_out [simp]:
  "out (after_cmd w cmd b s) = out (print_debug_command cmd s)"
  by (simp add: after_cmd_def subprocess_run_def)

definition is_transfer :: "proc \<Rightarrow> bool" where
  "is_transfer p = (case p of Shell cmd \<Rightarrow> prefix ''kubectl cp '' cmd | Argv _ \<Rightarrow> False)"

definition not_found_msg :: "string \<Rightarrow> string" where
  "not_found_msg backup_path =
     colorize (CROSS @ '' Error:'') RED @ '' Path '' @ colorize backup_path MAGENTA
       @ '' does not exist in container''"

text \<open>
  C6. When the presence check prints nothing (after stripping), \<open>create_backup\<close>
  returns \<open>False\<close> with the path-not-found message on standard error; the only
  commands it runs are the presence check and, when the parent directory of the path is
  neither empty nor \<open>/\<close>, the listing of that directory, so no copy command is
  issued; and a listing that printed something is displayed as the last line of output.
\<close>

theorem backup_path_not_found:
  assumes "respond w (issued s) = Returned (Completed rc stdout stderr)"
    and "strip stdout = []"
    and "respond w (Suc (issued s)) = Returned (Completed rc' stdout' stderr')"
  shows "let parent_dir = dirname backup_path;
             probing = (parent_dir \<noteq> [] \<and> parent_dir \<noteq> ''/'');
             r = create_backup w pod_name namespace container_name backup_path compress s
         in fst r = Inr False
          \<and> trace (snd r)
              = trace s @ Shell (verify_cmd pod_name namespace container_name backup_path)
                  # (if probing
                     then [Shell (parent_cmd pod_name namespace container_name parent_dir)]
                     else [])
          \<and> \<not> list_ex is_transfer (drop (length (trace s)) (trace (snd r)))
          \<and> (Stderr, not_found_msg backup_path) \<in> set (out (snd r))
          \<and> (probing \<and> strip stdout' \<noteq> [] \<longrightarrow>
                last (out (snd r))
                  = (Stdout, colorize ''Contents:'' BRIGHT_BLACK @ NL @ strip stdout'))"
  using assms
  by (simp add: create_backup_def create_backup_not_found_def Let_def run_command_unchecked_eq
      truthy_def is_transfer_def not_found_msg_def verify_cmd_def parent_cmd_def
      print_debug_command_def)

theorem backup_path_not_found_witness:
  "fst (create_backup ex_world_backup ''web-0'' ''default'' ''debugger-x'' ''/var/configs'' False
          (st0\<lparr>issued := 6\<rparr>)) = Inr False
   \<and> trace (snd (create_backup ex_world_backup ''web-0'' ''default'' ''debugger-x''
                    ''/var/configs'' False (st0\<lparr>issued := 6\<rparr>)))
     = [Shell (verify_cmd ''web-0'' ''default'' ''debugger-x'' ''/var/configs''),
        Shell (parent_cmd ''web-0'' ''default'' ''debugger-x'' ''/var'')]"
  using backup_path_not_found [of ex_world_backup "st0\<lparr>issued := 6\<rparr>" 0 "[]" "[]" 0 "[]" "[]"
      "''/var/configs''" "''web-0''" "''default''" "''debugger-x''" False]
  by (simp add: ex_world_backup_def world_of_def done_ok_def st0_def strip_def dirname_def
      Let_def)

lemma create_backup_compressed_run:
  assumes "respond w (issued s) = Returned (Completed rc0 out0 err0)"
    and "strip out0 \<noteq> []"
    and "makedirs w (''./backups/'' @ namespace) = None"
    and "respond w (Suc (issued s)) = Returned (Completed rc1 out1 err1)"
    and "respond w (Suc (Suc (issued s))) = Returned (Completed rc2 out2 err2)"
    and "respond w (Suc (Suc (Suc (issued s)))) = Returned (Completed rc3 out3 err3)"
  shows "fst (create_backup w pod_name namespace container_name backup_path True s) = Inr True
    \<and> trace (snd (create_backup w pod_name namespace container_name backup_path True s))
        = trace s
          @ [Shell (verify_cmd pod_name namespace container_name backup_path),
             Shell (archive_cmd pod_name namespace container_name backup_path),
             Shell (copy_archive_cmd pod_name namespace container_name
                      (''./backups/'' @ namespace @ ''/''
                         @ strftime_now w (now s + int (duration w (issued s)))
                         @ ''_'' @ pod_name @ ''.tar.gz'')),
             Shell (cleanup_cmd pod_name namespace container_name)]"
  using assms
  by (simp add: create_backup_def create_backup_compressed_def Let_def run_command_unchecked_eq
      truthy_def strip_strip)

definition ex_world_tar_fails :: world where
  "ex_world_tar_fails =
     world_of [done_ok ''/var/configs'',
               Returned (Completed 2 [] ''tar: /var/configs: Cannot open''),
               Returned (Completed 1 [] ''tar: /tmp/kdebug-backup.tar.gz: No such file''),
               done_ok []] []"

text \<open>
  C7 on the code. In a compressed backup whose presence check finds the path,
  \<open>create_backup\<close> runs presence check, archive, copy and remote clean-up in that
  order and returns \<open>True\<close>, whatever the exit status of the archive, of the copy
  and of the clean-up command is. So a failing clean-up does not turn the result into a
  failure, as claimed; but neither does a failing archive or a failing copy. Every command
  is run with \<open>check = False\<close>, so \<open>run_command\<close> never returns \<^verbatim>\<open>None\<close> and
  the tests \<^verbatim>\<open>if result is None\<close> never fire.
\<close>

theorem compressed_backup_ignores_return_codes:
  assumes "respond w (issued s) = Returned (Completed rc0 out0 err0)"
    and "strip out0 \<noteq> []"
    and "makedirs w (''./backups/'' @ namespace) = None"
    and "respond w (Suc (issued s)) = Returned (Completed archive_status out1 err1)"
    and "respond w (Suc (Suc (issued s))) = Returned (Completed transfer_status out2 err2)"
    and "respond w (Suc (Suc (Suc (issued s)))) = Returned (Completed cleanup_status out3 err3)"
  shows "fst (create_backup w pod_name namespace container_name backup_path True s) = Inr True
    \<and> drop (length (trace s))
          (trace (snd (create_backup w pod_name namespace container_name backup_path True s)))
        = [Shell (verify_cmd pod_name namespace container_name backup_path),
           Shell (archive_cmd pod_name namespace container_name backup_path),
           Shell (copy_archive_cmd pod_name namespace container_name
                    (''./backups/'' @ namespace @ ''/''
                       @ strftime_now w (now s + int (duration w (issued s)))
                       @ ''_'' @ pod_name @ ''.tar.gz'')),
           Shell (cleanup_cmd pod_name namespace container_name)]"
  using create_backup_compressed_run [OF assms, of pod_name container_name backup_path]
  by simp

text \<open>
  The failing input: the path exists, \<^verbatim>\<open>tar\<close> exits with status 2 and
  \<^verbatim>\<open>kubectl cp\<close> with status 1, and the result is \<open>True\<close>.
\<close>

theorem compressed_backup_failure_ignored:
  "fst (create_backup ex_world_tar_fails ''web-0'' ''prod'' ''debugger-x'' ''/var/configs'' True st0)
     = Inr True
   \<and> trace (snd (create_backup ex_world_tar_fails ''web-0'' ''prod'' ''debugger-x''
                    ''/var/configs'' True st0))
     = [Shell (verify_cmd ''web-0'' ''prod'' ''debugger-x'' ''/var/configs''),
        Shell (archive_cmd ''web-0'' ''prod'' ''debugger-x'' ''/var/configs''),
        Shell (copy_archive_cmd ''web-0'' ''prod'' ''debugger-x''
                 ''./backups/prod/2024-01-01_00-00-00_web-0.tar.gz''),
        Shell (cleanup_cmd ''web-0'' ''prod'' ''debugger-x'')]"
  using compressed_backup_ignores_return_codes [of ex_world_tar_fails st0 0 "''/var/configs''"
      "[]" "''prod''" 2 "[]" "''tar: /var/configs: Cannot open''" 1 "[]"
      "''tar: /tmp/kdebug-backup.tar.gz: No such file''" 0 "[]" "[]" "''web-0''"
      "''debugger-x''" "''/var/configs''"]
  by (simp add: ex_world_tar_fails_def world_of_def done_ok_def st0_def strip_plain isspace_def)

section \<open>Cleanup\<close>

definition extends_without :: "proc \<Rightarrow> st \<Rightarrow> st \<Rightarrow> bool" where
  "extends_without k s s' = (\<exists>ops. trace s' = trace s @ ops \<and> k \<notin> set ops)"

lemma ew_refl: "extends_without k s s"
  by (simp add: extends_without_def)

lemma ew_print: "extends_without k s s' \<Longrightarrow> extends_without k s (py_print f t s')"
  by (simp add: extends_without_def)

lemma ew_cmd:
  "Shell cmd \<noteq> k \<Longrightarrow> extends_without k s s' \<Longrightarrow> extends_without k s (after_cmd w cmd False s')"
  by (auto simp: extends_without_def)

lemma ew_trans:
  "extends_without k s s' \<Longrightarrow> extends_without k s' s'' \<Longrightarrow> extends_without k s s''"
  by (auto simp: extends_without_def)

lemmas cmd_neq_kill = kill_cmd_neq kill_cmd_neq [THEN not_sym]

lemma create_backup_not_found_trace:
  "extends_without (Shell (kill_cmd p n c)) s (snd (create_backup_not_found w p n c path s))"
  by (auto simp: create_backup_not_found_def Let_def run_command_unchecked_eq cmd_neq_kill
      split: outcome.splits completed.splits intro!: ew_print ew_cmd ew_refl)

lemma create_backup_direct_trace:
  "extends_without (Shell (kill_cmd p n c)) s (snd (create_backup_direct w p n c path dir d s))"
  by (auto simp: create_backup_direct_def Let_def run_command_unchecked_eq cmd_neq_kill
      split: outcome.splits completed.splits intro!: ew_print ew_cmd ew_refl)

lemma create_backup_compressed_trace:
  "extends_without (Shell (kill_cmd p n c)) s
     (snd (create_backup_compressed w p n c path dir d s))"
  by (auto simp: create_backup_compressed_def Let_def run_command_unchecked_eq cmd_neq_kill
      split: outcome.splits completed.splits intro!: ew_print ew_cmd ew_refl)

lemma create_backup_trace:
  "extends_without (Shell (kill_cmd p n c)) s (snd (create_backup w p n c path compress s))"
proof -
  have pre: "\<And>s'. extends_without (Shell (kill_cmd p n c)) s s' \<Longrightarrow>
      extends_without (Shell (kill_cmd p n c)) s (snd (create_backup_not_found w p n c path s'))"
      "\<And>s' dir d. extends_without (Shell (kill_cmd p n c)) s s' \<Longrightarrow>
      extends_without (Shell (kill_cmd p n c)) s (snd (create_backup_direct w p n c path dir d s'))"
      "\<And>s' dir d. extends_without (Shell (kill_cmd p n c)) s s' \<Longrightarrow>
      extends_without (Shell (kill_cmd p n c)) s (snd (create_backup_compressed w p n c path dir d s'))"
    by (erule ew_trans, rule create_backup_not_found_trace,
        erule ew_trans, rule create_backup_direct_trace,
        erule ew_trans, rule create_backup_compressed_trace)
  show ?thesis
    by (auto simp: create_backup_def Let_def run_command_unchecked_eq cmd_neq_kill
      split: outcome.splits completed.splits option.splits
      intro!: pre ew_print ew_cmd ew_refl)
qed

lemma attached_run_trace:
  "trace (snd (case subprocess_run w (Argv a) s0 of
                 (Returned (Completed returncode stdout stderr), s) \<Rightarrow> (Inr returncode, s)
               | (Raised KeyboardInterrupt, s) \<Rightarrow> (Inr i, py_print f1 t1 s)
               | (Raised (Exception e), s) \<Rightarrow> (Inr j, py_print f2 (t2 e) s)
               | (Raised (BaseException e), s) \<Rightarrow> (Inl (BaseException e), s)))
     = trace s0 @ [Argv a]"
  by (simp add: subprocess_run_def split: outcome.split completed.split exn.split)

lemma exec_interactive_trace:
  "extends_without (Shell k) s (snd (exec_interactive w p n c cmd cd s))"
proof -
  have "\<exists>argv. trace (snd (exec_interactive w p n c cmd cd s)) = trace s @ [Argv argv]"
    unfolding exec_interactive_def Let_def attached_run_trace
    by (simp add: if_distrib [of trace] split del: if_split cong: if_cong)
  then show ?thesis
    by (auto simp: extends_without_def)
qed

lemma cleanup_trace:
  "trace (snd (cleanup_debug_container w p n d s)) = trace s @ [Shell (kill_cmd p n d)]"
  by (simp add: cleanup_debug_container_def Let_def run_command_unchecked_eq
      split: outcome.splits completed.splits)

lemma cleanup_trace':
  "cleanup_debug_container w p n d s = (r, s') \<Longrightarrow> trace s' = trace s @ [Shell (kill_cmd p n d)]"
  using cleanup_trace [of w p n d s] by simp

lemma main_operation_trace:
  "\<exists>ops. trace (snd (main_operation w args pod_name namespace debug_container s))
           = trace s @ ops @ [Shell (kill_cmd pod_name namespace debug_container)]
         \<and> Shell (kill_cmd pod_name namespace debug_container) \<notin> set ops"
proof -
  let ?k = "Shell (kill_cmd pod_name namespace debug_container)"
  let ?op = "if truthy (a_backup args) then
              (case create_backup w pod_name namespace debug_container (the (a_backup args))
                      (a_compress args) s of
                 (Inl e, s) \<Rightarrow> (Inl e, s)
               | (Inr success, s) \<Rightarrow> (Inr (if success then 0 else 1), s))
            else exec_interactive w pod_name namespace debug_container (a_cmd args)
                   (a_cd_into args) s"
  obtain r s1 where op: "?op = (r, s1)" by (cases ?op) auto
  have ew: "extends_without ?k s s1"
  proof (cases "truthy (a_backup args)")
    case True
    with op have "s1 = snd (create_backup w pod_name namespace debug_container
        (the (a_backup args)) (a_compress args) s)"
      by (auto split: prod.splits sum.splits)
    then show ?thesis by (simp add: create_backup_trace)
  next
    case False
    with op have "s1 = snd (exec_interactive w pod_name namespace debug_container (a_cmd args)
        (a_cd_into args) s)"
      by simp
    then show ?thesis by (simp add: exec_interactive_trace)
  qed
  then obtain ops where ops: "trace s1 = trace s @ ops" "?k \<notin> set ops"
    by (auto simp: extends_without_def)
  have "trace (snd (main_operation w args pod_name namespace debug_container s))
      = trace s1 @ [?k]"
    unfolding main_operation_def op
    by (auto simp: Let_def dest!: cleanup_trace' split: sum.splits exn.splits prod.splits)
  with ops show ?thesis by auto
qed

lemma get_cmd_neq_kill:
  "get_pod_cmd p' n' \<noteq> kill_cmd p n d"
  "get_pods_cmd n' \<noteq> kill_cmd p n d"
  "namespace_cmd \<noteq> kill_cmd p n d"
  by (simp_all add: get_pod_cmd_def get_pods_cmd_def namespace_cmd_def kill_cmd_def)

lemma run_command_checked_eq:
  "run_command w cmd True b s =
     (case respond w (issued s) of
        Raised e \<Rightarrow> (Inl e, after_cmd w cmd b s)
      | Returned (Completed rc stdout stderr) \<Rightarrow>
          if rc \<noteq> 0
          then (Inr None,
                py_print Stderr (''Error: '' @ stderr)
                  (py_print Stderr (''Error running command: '' @ cmd) (after_cmd w cmd b s)))
          else (Inr (Some (strip stdout)), after_cmd w cmd b s))"
  by (simp add: run_command_def subprocess_run_def after_cmd_def
      split: outcome.splits completed.splits)

lemma ew_cmd':
  "(if b then Argv [''bash'', ''-c'', cmd] else Shell cmd) \<noteq> k \<Longrightarrow> extends_without k s s' \<Longrightarrow>
   extends_without k s (after_cmd w cmd b s')"
  by (auto simp: extends_without_def)

lemma ew_sleep: "extends_without k s s' \<Longrightarrow> extends_without k s (sleep d s')"
  by (simp add: extends_without_def)

lemma ew_debug: "extends_without k s s' \<Longrightarrow> extends_without k s (s'\<lparr>DEBUG_MODE := b\<rparr>)"
  by (simp add: extends_without_def)

lemmas ew_intros = ew_print ew_sleep ew_debug ew_refl

lemma get_current_namespace_ew:
  assumes "get_current_namespace w s = (r, s')"
    and "extends_without (Shell (kill_cmd p n d)) s0 s"
  shows "extends_without (Shell (kill_cmd p n d)) s0 s'"
  using assms
  by (auto simp: get_current_namespace_def run_command_unchecked_eq get_cmd_neq_kill
      split: outcome.splits completed.splits intro!: ew_cmd' ew_intros)

lemma get_pod_by_name_ew:
  assumes "get_pod_by_name w pn ns s = (r, s')"
    and "extends_without (Shell (kill_cmd p n d)) s0 s"
  shows "extends_without (Shell (kill_cmd p n d)) s0 s'"
  using assms
  by (auto simp: get_pod_by_name_def Let_def run_command_unchecked_eq get_cmd_neq_kill
      split: outcome.splits completed.splits sum.splits if_splits intro!: ew_cmd' ew_intros)

lemma get_pods_by_controller_ew:
  assumes "get_pods_by_controller w ct cn ns s = (r, s')"
    and "extends_without (Shell (kill_cmd p n d)) s0 s"
  shows "extends_without (Shell (kill_cmd p n d)) s0 s'"
  using assms
  by (auto simp: get_pods_by_controller_def Let_def run_command_unchecked_eq get_cmd_neq_kill
      split: outcome.splits completed.splits sum.splits option.splits if_splits
      intro!: ew_cmd' ew_intros)

lemma get_pod_containers_ew:
  assumes "get_pod_containers w pn ns s = (r, s')"
    and "extends_without (Shell (kill_cmd p n d)) s0 s"
  shows "extends_without (Shell (kill_cmd p n d)) s0 s'"
  using assms
  by (auto simp: get_pod_containers_def Let_def run_command_checked_eq get_cmd_neq_kill
      split: outcome.splits completed.splits sum.splits if_splits intro!: ew_cmd' ew_intros)

lemma get_existing_ephemeral_containers_ew:
  assumes "get_existing_ephemeral_containers w pn ns s = (r, s')"
    and "extends_without (Shell (kill_cmd p n d)) s0 s"
  shows "extends_without (Shell (kill_cmd p n d)) s0 s'"
  using assms
  by (auto simp: get_existing_ephemeral_containers_def split: prod.splits sum.splits
      intro: get_pod_containers_ew)

lemma select_pod_ew:
  assumes "select_pod w args s = (r, s')"
    and "extends_without (Shell (kill_cmd p n d)) s0 s"
  shows "extends_without (Shell (kill_cmd p n d)) s0 s'"
  using assms
  by (auto simp: select_pod_def Let_def split: prod.splits sum.splits if_splits
      intro: get_current_namespace_ew get_pod_by_name_ew get_pods_by_controller_ew
      intro!: ew_intros)

lemma check_statuses_ew:
  assumes "check_statuses c sts l s = (r, l', s')"
    and "extends_without k s0 s"
  shows "extends_without k s0 s'"
  using assms check_statuses_fields [of c sts l s]
  by (simp add: extends_without_def)

lemma poll_once_ew:
  assumes "poll_once w pn ns c l s = (r, s')"
    and "extends_without (Shell (kill_cmd p n d)) s0 s"
  shows "extends_without (Shell (kill_cmd p n d)) s0 s'"
  using assms
  by (auto simp: poll_once_def Let_def run_command_checked_eq get_cmd_neq_kill
      split: outcome.splits completed.splits sum.splits if_splits prod.splits option.splits
      intro!: ew_cmd' ew_intros
      intro: check_statuses_ew)

lemma wait_loop_ew:
  "wait_loop w pn ns c timeout start l s = (r, s') \<Longrightarrow>
   extends_without (Shell (kill_cmd p n d)) s0 s \<Longrightarrow>
   extends_without (Shell (kill_cmd p n d)) s0 s'"
proof (induction w pn ns c timeout start l s rule: wait_loop.induct)
  case (1 w pn ns c timeout start l s)
  show ?case
  proof (cases "now s - start < timeout")
    case False
    with "1.prems" show ?thesis
      by (simp add: wait_loop.simps [of w pn ns c timeout start l s])
  next
    case True
    obtain r1 s1 where po: "poll_once w pn ns c l s = (r1, s1)"
      by (cases "poll_once w pn ns c l s") auto
    note e1 = poll_once_ew [OF po "1.prems"(2)]
    show ?thesis
    proof (cases r1)
      case (Inl e)
      with True po "1.prems" e1 show ?thesis
        by (simp add: wait_loop.simps [of w pn ns c timeout start l s])
    next
      case (Inr v)
      obtain b l1 where v: "v = (b, l1)" by (cases v)
      show ?thesis
      proof (cases b)
        case (Some x)
        with True po Inr v "1.prems" e1 show ?thesis
          by (simp add: wait_loop.simps [of w pn ns c timeout start l s])
      next
        case None
        with True po Inr v "1.prems"
        have "wait_loop w pn ns c timeout start l1 s1 = (r, s')"
          by (simp add: wait_loop.simps [of w pn ns c timeout start l s])
        from "1.IH" [OF True po [symmetric] Inr v [symmetric] None this e1]
        show ?thesis .
      qed
    qed
  qed
qed

lemma wait_for_container_running_ew:
  assumes "wait_for_container_running w pn ns c timeout s = (r, s')"
    and "extends_without (Shell (kill_cmd p n d)) s0 s"
  shows "extends_without (Shell (kill_cmd p n d)) s0 s'"
  using assms
  by (auto simp: wait_for_container_running_def Let_def
      split: prod.splits sum.splits option.splits if_splits
      intro!: ew_intros intro: wait_loop_ew [OF _ ew_print])

lemma run_command_ew:
  assumes "run_command w cmd check b s = (r, s')"
    and "(if b then Argv [''bash'', ''-c'', cmd] else Shell cmd) \<noteq> k"
    and "extends_without k s0 s"
  shows "extends_without k s0 s'"
  using run_command_fields(3) [OF assms(1)] assms(2,3)
  by (auto simp: extends_without_def)

lemma launch_debug_container_ew:
  assumes "launch_debug_container w pn ns img target existing as_root s = (r, s')"
    and "extends_without (Shell (kill_cmd p n d)) s0 s"
  shows "extends_without (Shell (kill_cmd p n d)) s0 s'"
proof -
  let ?k = "Shell (kill_cmd p n d)"
  define sa where "sa = (if existing \<noteq> []
             then py_print Stdout
                    (''Existing ephemeral containers: ''
                       @ colorize (join '', '' existing) BRIGHT_BLACK)
                    (py_print Stdout
                       (''Launching debug container for pod '' @ colorize pn CYAN @ ''...'') s)
             else py_print Stdout
                    (''Launching debug container for pod '' @ colorize pn CYAN @ ''...'') s)"
  have ea: "extends_without ?k s0 sa"
    using assms(2) by (simp add: sa_def ew_print)
  obtain r1 sb where rc: "run_command w (debug_cmd pn ns img target as_root) False True sa
      = (r1, sb)"
    by (cases "run_command w (debug_cmd pn ns img target as_root) False True sa") auto
  have eb: "extends_without ?k s0 sb"
    by (rule run_command_ew [OF rc _ ea]) simp
  obtain r2 sc where ge: "get_existing_ephemeral_containers w pn ns (sleep 2 sb) = (r2, sc)"
    by (cases "get_existing_ephemeral_containers w pn ns (sleep 2 sb)") auto
  have ec: "extends_without ?k s0 sc"
    by (rule get_existing_ephemeral_containers_ew [OF ge ew_sleep [OF eb]])
  have wt: "\<And>c t r3 sd s1. wait_for_container_running w pn ns c t (py_print Stdout s1 sc) = (r3, sd)
      \<Longrightarrow> extends_without ?k s0 sd"
    by (erule wait_for_container_running_ew) (rule ew_print [OF ec])
  show ?thesis
  proof (cases r1)
    case (Inl e)
    from assms(1) have "s' = sb"
      unfolding launch_debug_container_def Let_def sa_def [symmetric] rc
      by (simp add: Inl)
    with eb show ?thesis by simp
  next
    case (Inr x)
    from assms(1) have "(case r2 of Inl e \<Rightarrow> (Inl e, sc)
          | Inr new_containers \<Rightarrow>
             (let new_container_names = filter (\<lambda>name. name \<notin> set existing) new_containers
              in if new_container_names = []
                 then (Inr None,
                       py_print Stderr
                         ''Error: Could not identify newly created debug container'' sc)
                 else
                   (let debug_container = hd new_container_names;
                        s = py_print Stdout
                              (colorize CHECK GREEN @ '' Created debug container: ''
                                 @ colorize debug_container CYAN) sc
                    in case wait_for_container_running w pn ns debug_container 60 s of
                         (Inl e, s) \<Rightarrow> (Inl e, s)
                       | (Inr okay, s) \<Rightarrow>
                           if \<not> okay
                           then (Inr None,
                                 py_print Stderr ''Error: Debug container failed to start'' s)
                           else (Inr (Some debug_container), s)))) = (r, s')"
      unfolding launch_debug_container_def Let_def sa_def [symmetric] rc
      by (simp add: Inr ge Let_def)
    then show ?thesis
      using ec wt
      by (auto simp: Let_def split: sum.splits if_splits prod.splits intro!: ew_print)
  qed
qed

lemma main_provision_ew:
  assumes "main_provision w args s = (r, s')"
  shows "extends_without (Shell (kill_cmd p n d)) s s'"
proof -
  let ?k = "Shell (kill_cmd p n d)"
  define sa where "sa = s\<lparr>DEBUG_MODE := a_debug args\<rparr>"
  have ea: "extends_without ?k s sa"
    by (simp add: sa_def ew_debug ew_refl)
  note sp = select_pod_ew [OF _ ea]
  have pc: "\<And>pn ns r s1 s2. extends_without ?k s s1 \<Longrightarrow> get_pod_containers w pn ns s1 = (r, s2)
      \<Longrightarrow> extends_without ?k s s2"
    by (rule get_pod_containers_ew)
  have ge: "\<And>pn ns r s1 s2. extends_without ?k s s1 \<Longrightarrow>
      get_existing_ephemeral_containers w pn ns s1 = (r, s2) \<Longrightarrow> extends_without ?k s s2"
    by (rule get_existing_ephemeral_containers_ew)
  have la: "\<And>pn ns i t ex ar r s1 s2. extends_without ?k s s1 \<Longrightarrow>
      launch_debug_container w pn ns i t ex ar s1 = (r, s2) \<Longrightarrow> extends_without ?k s s2"
    by (rule launch_debug_container_ew)
  from assms show ?thesis
    unfolding main_provision_def Let_def sa_def [symmetric]
    using ea
    by (auto split: sum.splits if_splits prod.splits option.splits
        intro!: ew_print dest!: sp
        elim!: pc [rotated] ge [rotated] la [rotated])
qed

text \<open>
  C4. In every run in which provisioning ends with a debug container, the command of
  \<open>cleanup_debug_container\<close> for that pod, namespace and debug container is issued
  exactly once in the whole run, and it is the last command of the run, whatever the
  operation does: backup success or failure, any exit code of the interactive session,
  an exception or an interrupt. (\<open>cleanup_debug_container\<close> issues this command once
  per call, and nothing else issues it.)
\<close>

theorem cleanup_exactly_once:
  assumes "main_provision w args s = (Inr (Inr (pod_name, namespace, debug_container)), s1)"
  shows "count_list (drop (length (trace s)) (trace (snd (main w args s))))
           (Shell (kill_cmd pod_name namespace debug_container)) = 1
       \<and> last (trace (snd (main w args s))) = Shell (kill_cmd pod_name namespace debug_container)"
proof -
  let ?k = "Shell (kill_cmd pod_name namespace debug_container)"
  from main_provision_ew [OF assms, of pod_name namespace debug_container] obtain ops1
    where o1: "trace s1 = trace s @ ops1" "?k \<notin> set ops1"
    by (auto simp: extends_without_def)
  from main_operation_trace [of w args pod_name namespace debug_container s1] obtain ops2
    where o2: "trace (snd (main_operation w args pod_name namespace debug_container s1))
        = trace s1 @ ops2 @ [?k]" "?k \<notin> set ops2"
    by blast
  have "main w args s = main_operation w args pod_name namespace debug_container s1"
    by (simp add: main_def assms)
  with o1 o2 show ?thesis by simp
qed

lemma strip_POD: "strip ''POD'' = ''POD''" "strip ''POD2'' = ''POD2''" "strip [] = []"
  by (simp_all add: strip_plain isspace_def) (simp add: strip_def)

lemmas run_defs = select_pod_def
  get_current_namespace_def get_pod_by_name_def get_pod_containers_def
  get_existing_ephemeral_containers_def launch_debug_container_def
  wait_for_container_running_def wait_loop.simps poll_once_def check_status_def
  run_command_def subprocess_run_def print_debug_command_def truthy_def get_default_def
  as_pod_def names_of_def no_containers_def Let_def failure_states_def

lemma ex_backup_provision:
  "fst (main_provision ex_world_backup ex_args_backup st0)
     = Inr (Inr (''web-0'', ''default'', ''debugger-x''))"
  by (simp add: main_provision_def run_defs ex_world_backup_def ex_args_backup_def
      world_of_def done_ok_def st0_def ex_pod_before_def ex_pod_after_def empty_pod_def
      strip_POD)

theorem cleanup_exactly_once_witness:
  "count_list (trace (snd (main ex_world_backup ex_args_backup st0)))
     (Shell (kill_cmd ''web-0'' ''default'' ''debugger-x'')) = 1
   \<and> last (trace (snd (main ex_world_backup ex_args_backup st0)))
     = Shell (kill_cmd ''web-0'' ''default'' ''debugger-x'')"
proof -
  have "main_provision ex_world_backup ex_args_backup st0
      = (Inr (Inr (''web-0'', ''default'', ''debugger-x'')),
         snd (main_provision ex_world_backup ex_args_backup st0))"
    using ex_backup_provision
    by (cases "main_provision ex_world_backup ex_args_backup st0") simp
  from cleanup_exactly_once [OF this] show ?thesis
    by (simp add: st0_def)
qed

section \<open>Backup target\<close>

definition ex_world_compress :: world where
  "ex_world_compress =
     world_of [done_ok ''POD'', done_ok ''POD'', done_ok [], done_ok ''POD2'', done_ok ''POD2'',
               done_ok ''/var/configs'', done_ok [], done_ok [], done_ok [], done_ok []]
       [(''POD'', JPod ex_pod_before), (''POD2'', JPod ex_pod_after)]"

definition ex_args_compress :: args where
  "ex_args_compress =
     \<lparr>a_pod = Some ''web-0'', a_controller = None, a_controller_name = None,
      a_namespace = Some ''prod'', a_container = Some ''app'', a_debug_image = ''toolbox'',
      a_cmd = ''bash'', a_cd_into = None, a_backup = Some ''/var/configs'',
      a_compress = True, a_as_root = False, a_debug = False\<rparr>"


text \<open>
  C5 on the code. In every run in which provisioning ends with a debug container and a
  compressed backup finds its path, the presence check, the archive, the copy and the
  remote clean-up are all issued with \<^verbatim>\<open>-c\<close> followed by the debug container that
  provisioning returned (\<open>main\<close> hands it to \<open>create_backup\<close> as \<open>container_name\<close>)
  and with the path as given: they look at the file system of the debug container, not
  at that of the target container.
\<close>

theorem backup_commands_name_debug_container:
  assumes "main_provision w args s = (Inr (Inr (pod_name, namespace, debug_container)), s1)"
    and "truthy (a_backup args)" and "a_compress args"
    and "respond w (issued s1) = Returned (Completed rc0 out0 err0)"
    and "strip out0 \<noteq> []"
    and "makedirs w (''./backups/'' @ namespace) = None"
    and "respond w (Suc (issued s1)) = Returned (Completed rc1 out1 err1)"
    and "respond w (Suc (Suc (issued s1))) = Returned (Completed rc2 out2 err2)"
    and "respond w (Suc (Suc (Suc (issued s1)))) = Returned (Completed rc3 out3 err3)"
  shows "drop (length (trace s1)) (trace (snd (main w args s)))
     = [Shell (verify_cmd pod_name namespace debug_container (the (a_backup args))),
        Shell (archive_cmd pod_name namespace debug_container (the (a_backup args))),
        Shell (copy_archive_cmd pod_name namespace debug_container
                 (''./backups/'' @ namespace @ ''/''
                    @ strftime_now w (now s1 + int (duration w (issued s1)))
                    @ ''_'' @ pod_name @ ''.tar.gz'')),
        Shell (cleanup_cmd pod_name namespace debug_container),
        Shell (kill_cmd pod_name namespace debug_container)]"
proof -
  let ?cb = "create_backup w pod_name namespace debug_container (the (a_backup args)) True s1"
  note run = create_backup_compressed_run [OF assms(4-9), of pod_name debug_container
      "the (a_backup args)"]
  obtain sb where cb: "?cb = (Inr True, sb)"
    using run by (cases ?cb) auto
  from run cb have tb: "trace sb = trace s1
      @ [Shell (verify_cmd pod_name namespace debug_container (the (a_backup args))),
        Shell (archive_cmd pod_name namespace debug_container (the (a_backup args))),
        Shell (copy_archive_cmd pod_name namespace debug_container
                 (''./backups/'' @ namespace @ ''/''
                    @ strftime_now w (now s1 + int (duration w (issued s1)))
                    @ ''_'' @ pod_name @ ''.tar.gz'')),
        Shell (cleanup_cmd pod_name namespace debug_container)]"
    by simp
  have "main w args s = main_operation w args pod_name namespace debug_container s1"
    by (simp add: main_def assms(1))
  also have "snd \<dots> = snd (cleanup_debug_container w pod_name namespace debug_container sb)"
    using assms(2,3) cb
    by (simp add: main_operation_def split: prod.splits sum.splits)
  finally show ?thesis
    by (simp add: cleanup_trace tb)
qed

lemma ex_compress_provision:
  "fst (main_provision ex_world_compress ex_args_compress st0)
     = Inr (Inr (''web-0'', ''prod'', ''debugger-x''))
   \<and> issued (snd (main_provision ex_world_compress ex_args_compress st0)) = 5
   \<and> now (snd (main_provision ex_world_compress ex_args_compress st0)) = 7
   \<and> length (trace (snd (main_provision ex_world_compress ex_args_compress st0))) = 5"
  by (simp add: main_provision_def run_defs ex_world_compress_def ex_args_compress_def
      world_of_def done_ok_def st0_def ex_pod_before_def ex_pod_after_def empty_pod_def
      strip_POD)

text \<open>
  The failing input: \<^verbatim>\<open>--container app --backup /var/configs --compress\<close>. The
  debug container \<open>debugger-x\<close> is created with \<open>app\<close> as its target, and every
  backup command names \<open>debugger-x\<close>.
\<close>

theorem backup_commands_name_debug_container_witness:
  "a_container ex_args_compress = Some ''app''
   \<and> drop 5 (trace (snd (main ex_world_compress ex_args_compress st0)))
     = [Shell (verify_cmd ''web-0'' ''prod'' ''debugger-x'' ''/var/configs''),
        Shell (archive_cmd ''web-0'' ''prod'' ''debugger-x'' ''/var/configs''),
        Shell (copy_archive_cmd ''web-0'' ''prod'' ''debugger-x''
                 ''./backups/prod/2024-01-01_00-00-00_web-0.tar.gz''),
        Shell (cleanup_cmd ''web-0'' ''prod'' ''debugger-x''),
        Shell (kill_cmd ''web-0'' ''prod'' ''debugger-x'')]"
proof -
  define s1 where "s1 = snd (main_provision ex_world_compress ex_args_compress st0)"
  note p = ex_compress_provision [folded s1_def]
  from p have mp: "main_provision ex_world_compress ex_args_compress st0
      = (Inr (Inr (''web-0'', ''prod'', ''debugger-x'')), s1)"
    unfolding s1_def by (cases "main_provision ex_world_compress ex_args_compress st0") simp
  have r: "respond ex_world_compress (issued s1) = Returned (Completed 0 ''/var/configs'' [])"
    "respond ex_world_compress (Suc (issued s1)) = Returned (Completed 0 [] [])"
    "respond ex_world_compress (Suc (Suc (issued s1))) = Returned (Completed 0 [] [])"
    "respond ex_world_compress (Suc (Suc (Suc (issued s1)))) = Returned (Completed 0 [] [])"
    "makedirs ex_world_compress (''./backups/'' @ ''prod'') = None"
    "strftime_now ex_world_compress (now s1 + int (duration ex_world_compress (issued s1)))
       = ''2024-01-01_00-00-00''"
    unfolding p [THEN conjunct2, THEN conjunct1]
    by (simp_all add: ex_world_compress_def world_of_def done_ok_def)
  have a: "truthy (a_backup ex_args_compress)" "a_compress ex_args_compress"
    "the (a_backup ex_args_compress) = ''/var/configs''"
    "a_container ex_args_compress = Some ''app''"
    by (simp_all add: ex_args_compress_def truthy_def)
  have st: "strip ''/var/configs'' \<noteq> []"
    by (simp add: strip_plain isspace_def)
  from backup_commands_name_debug_container [OF mp a(1,2) r(1) st r(5) r(2,3,4)] p a r(6)
  show ?thesis by simp
qed

section \<open>Identification of the new container\<close>

lemma get_existing_ephemeral_containers_parsed:
  assumes "respond w (issued s) = Returned (Completed 0 stdout stderr)"
    and "strip stdout \<noteq> []"
    and "json_loads w (strip stdout) = Inr (JPod pod)"
  shows "get_existing_ephemeral_containers w pod_name namespace s
     = (Inr (names_of (ephemeralContainers pod)),
        after_cmd w (get_pod_cmd pod_name namespace) False s)"
  using assms
  by (simp add: get_existing_ephemeral_containers_def get_pod_containers_def
      run_command_checked_eq truthy_def as_pod_def)

text \<open>
  C1, as amended. Let \<open>new\<close> be the names of the re-fetched ephemeral containers that
  are not among the names taken before the creation request, in listing order. When
  \<open>new\<close> is empty, \<open>launch_debug_container\<close> returns \<^verbatim>\<open>None\<close>. When it is not
  empty, whether it holds one name or several, the function goes on with the first name
  of \<open>new\<close>: it waits for that container, starting with the third command of the
  call, and returns that name if the wait succeeds and \<^verbatim>\<open>None\<close> if it fails. It
  never returns any other name.
\<close>

theorem new_container_identification:
  assumes "respond w (issued s) = Returned c0"
    and "respond w (Suc (issued s)) = Returned (Completed 0 stdout stderr)"
    and "strip stdout \<noteq> []"
    and "json_loads w (strip stdout) = Inr (JPod pod)"
  shows "let new = filter (\<lambda>name. name \<notin> set existing_containers)
                     (names_of (ephemeralContainers pod));
             r = fst (launch_debug_container w pod_name namespace debug_image target_container
                        existing_containers as_root s)
         in (new = [] \<longrightarrow> r = Inr None)
          \<and> (\<forall>debug_container. r = Inr (Some debug_container) \<longrightarrow>
                 new \<noteq> [] \<and> debug_container = hd new)
          \<and> (new \<noteq> [] \<longrightarrow>
                (\<exists>s1. issued s1 = Suc (Suc (issued s))
                   \<and> r = (case fst (wait_for_container_running w pod_name namespace
                                       (hd new) 60 s1) of
                            Inl e \<Rightarrow> Inl e
                          | Inr running_now \<Rightarrow> Inr (if running_now then Some (hd new) else None))))"
proof -
  define sa where "sa = (if existing_containers \<noteq> []
             then py_print Stdout
                    (''Existing ephemeral containers: ''
                       @ colorize (join '', '' existing_containers) BRIGHT_BLACK)
                    (py_print Stdout
                       (''Launching debug container for pod '' @ colorize pod_name CYAN
                          @ ''...'') s)
             else py_print Stdout
                    (''Launching debug container for pod '' @ colorize pod_name CYAN
                       @ ''...'') s)"
  define cmd where "cmd = debug_cmd pod_name namespace debug_image target_container as_root"
  define sb where "sb = sleep 2 (after_cmd w cmd True sa)"
  define sc where "sc = after_cmd w (get_pod_cmd pod_name namespace) False sb"
  define new where "new = filter (\<lambda>name. name \<notin> set existing_containers)
                     (names_of (ephemeralContainers pod))"
  have ia: "issued sa = issued s"
    by (simp add: sa_def)
  obtain rc0 out0 err0 where c0: "c0 = Completed rc0 out0 err0" by (cases c0)
  have rc: "run_command w cmd False True sa = (Inr (Some (strip out0)), after_cmd w cmd True sa)"
    using assms(1) by (simp add: run_command_unchecked_eq ia c0)
  have ib: "issued sb = Suc (issued s)"
    by (simp add: sb_def ia)
  have ge: "get_existing_ephemeral_containers w pod_name namespace sb
      = (Inr (names_of (ephemeralContainers pod)), sc)"
    unfolding sc_def
    by (rule get_existing_ephemeral_containers_parsed [where stdout = stdout and stderr = stderr])
      (simp_all add: ib assms)
  have ic: "issued sc = Suc (Suc (issued s))"
    by (simp add: sc_def ib)
  let ?s1 = "py_print Stdout
               (colorize CHECK GREEN @ '' Created debug container: '' @ colorize (hd new) CYAN)
               sc"
  let ?w = "wait_for_container_running w pod_name namespace (hd new) 60 ?s1"
  have l: "launch_debug_container w pod_name namespace debug_image target_container
        existing_containers as_root s
      = (if new = []
         then (Inr None,
               py_print Stderr ''Error: Could not identify newly created debug container'' sc)
         else (case ?w of
                 (Inl e, s) \<Rightarrow> (Inl e, s)
               | (Inr running_now, s) \<Rightarrow>
                   if \<not> running_now
                   then (Inr None, py_print Stderr ''Error: Debug container failed to start'' s)
                   else (Inr (Some (hd new)), s)))"
    unfolding new_def launch_debug_container_def Let_def sa_def [symmetric]
      cmd_def [symmetric] rc
    by (simp add: sb_def [symmetric] ge)
  have "(new = [] \<longrightarrow> fst (launch_debug_container w pod_name namespace debug_image
            target_container existing_containers as_root s) = Inr None)
      \<and> (\<forall>debug_container. fst (launch_debug_container w pod_name namespace debug_image
            target_container existing_containers as_root s) = Inr (Some debug_container) \<longrightarrow>
                 new \<noteq> [] \<and> debug_container = hd new)
      \<and> (new \<noteq> [] \<longrightarrow>
            issued ?s1 = Suc (Suc (issued s))
            \<and> fst (launch_debug_container w pod_name namespace debug_image
                    target_container existing_containers as_root s)
              = (case fst ?w of
                   Inl e \<Rightarrow> Inl e
                 | Inr running_now \<Rightarrow> Inr (if running_now then Some (hd new) else None)))"
    unfolding l using ic
    by (cases ?w) (auto split: sum.splits)
  then show ?thesis
    unfolding Let_def new_def [symmetric] by blast
qed

definition ex_pod_two :: pod_data where
  "ex_pod_two = ex_pod_before\<lparr>ephemeralContainers := [Some ''debugger-a'', Some ''debugger-b''],
     ephemeralContainerStatuses :=
       [\<lparr>cs_name = Some ''debugger-a'',
         cs_state = \<lparr>running = True, waiting = None, terminated = None\<rparr>\<rparr>,
        \<lparr>cs_name = Some ''debugger-b'',
         cs_state = \<lparr>running = True, waiting = None, terminated = None\<rparr>\<rparr>]\<rparr>"

definition ex_world_two :: world where
  "ex_world_two = world_of [done_ok [], done_ok ''TWO'', done_ok ''TWO''] [(''TWO'', JPod ex_pod_two)]"

lemma strip_TWO: "strip ''TWO'' = ''TWO''"
  by (simp add: strip_plain isspace_def)

text \<open>
  C1 as stated fails: with no ephemeral container before and the two new names
  \<open>debugger-a\<close> and \<open>debugger-b\<close> after the request, the function does not fail
  but returns \<open>debugger-a\<close>.
\<close>

theorem new_container_identification_counterexample:
  "filter (\<lambda>name. name \<notin> set [])
     (names_of (ephemeralContainers ex_pod_two)) = [''debugger-a'', ''debugger-b'']
   \<and> fst (get_existing_ephemeral_containers ex_world_two ''web-0'' ''prod'' (st0\<lparr>issued := 1\<rparr>))
     = Inr (names_of (ephemeralContainers ex_pod_two))
   \<and> fst (launch_debug_container ex_world_two ''web-0'' ''prod'' ''toolbox'' (Some ''app'') []
          False st0) = Inr (Some ''debugger-a'')"
  by (simp add: run_defs ex_world_two_def world_of_def done_ok_def st0_def ex_pod_two_def
      ex_pod_before_def empty_pod_def strip_TWO strip_POD)

theorem new_container_identification_witness:
  "fst (launch_debug_container ex_world_two ''web-0'' ''prod'' ''toolbox'' (Some ''app'')
          [''debugger-a'', ''debugger-b''] False st0) = Inr None"
  using new_container_identification [of ex_world_two st0 "Completed 0 [] []" "''TWO''" "[]"
      ex_pod_two "[''debugger-a'', ''debugger-b'']" "''web-0''" "''prod''" "''toolbox''"
      "Some ''app''" False]
  by (simp add: ex_world_two_def world_of_def done_ok_def st0_def strip_TWO ex_pod_two_def
      ex_pod_before_def empty_pod_def names_of_def truthy_def Let_def)

end
